theory Spec2Isabelle
  imports Main "HOL-Library.Sublist"
begin

section \<open>Strings\<close>

text \<open>
  A JavaScript string is modelled by the list of its code units, as a \<open>string\<close>.
  The type \<open>char\<close> has 256 values, so the model covers the strings whose code units are
  below 256; every literal of the program is ASCII. In that range the line terminators of
  a regular expression's \<open>.\<close> are line feed and carriage return, and \<open>\d\<close> is \<open>0\<close> to \<open>9\<close>.
\<close>

definition isLineTerminator :: "char \<Rightarrow> bool" where
  "isLineTerminator c = (c = CHR 0x0A \<or> c = CHR 0x0D)"

definition isDigit :: "char \<Rightarrow> bool" where
  "isDigit c = (48 \<le> (of_char c :: nat) \<and> (of_char c :: nat) \<le> 57)"

definition digitValue :: "char \<Rightarrow> nat" where
  "digitValue c = (of_char c :: nat) - 48"

text \<open>\<open>s.startsWith(p)\<close> and \<open>s.substring(n)\<close>.\<close>

definition startsWith :: "string \<Rightarrow> string \<Rightarrow> bool" where
  "startsWith s p = prefix p s"

definition substring :: "string \<Rightarrow> nat \<Rightarrow> string" where
  "substring s n = drop n s"

text \<open>The first position at which \<open>p\<close> occurs in \<open>s\<close>.\<close>

definition occursAt :: "string \<Rightarrow> string \<Rightarrow> nat \<Rightarrow> bool" where
  "occursAt p s i = prefix p (drop i s)"

definition firstOccurrence :: "string \<Rightarrow> string \<Rightarrow> nat option" where
  "firstOccurrence p s = find (occursAt p s) [0..<Suc (length s)]"

text \<open>
  \<open>s.indexOf(p)\<close>: the first position, or \<open>-1\<close>.
\<close>

definition indexOf :: "string \<Rightarrow> string \<Rightarrow> int" where
  "indexOf s p = (case firstOccurrence p s of None \<Rightarrow> - 1 | Some i \<Rightarrow> int i)"

text \<open>
  \<open>s.toLowerCase()\<close>. Among the code units below 256 the letters with a lower case are
  \<open>A\<close> to \<open>Z\<close> and \<open>0xC0\<close> to \<open>0xDE\<close> without the multiplication sign \<open>0xD7\<close>; each is
  32 below its lower case.
\<close>

definition toLowerCaseChar :: "char \<Rightarrow> char" where
  "toLowerCaseChar c =
     (let n = (of_char c :: nat)
      in if (65 \<le> n \<and> n \<le> 90) \<or> (192 \<le> n \<and> n \<le> 222 \<and> n \<noteq> 215)
         then char_of (n + 32) else c)"

definition toLowerCase :: "string \<Rightarrow> string" where
  "toLowerCase s = map toLowerCaseChar s"

text \<open>
  The text of a number in a template literal, for a natural number: its decimal digits
  (JavaScript switches to the exponent notation from \<open>10^21\<close> on; the program prints
  numbers below 11 only).
\<close>

function numberToString :: "nat \<Rightarrow> string" where
  "numberToString n =
     (if n < 10 then [char_of (48 + n)]
      else numberToString (n div 10) @ [char_of (48 + n mod 10)])"
  by pat_completeness auto
termination
  by (relation "measure (\<lambda>n. n)") auto

declare numberToString.simps [simp del]

section \<open>java-runtime/index.ts: parseMajorVersion\<close>

text \<open>
  The tail \<open>(.*)"\<close> of the regular expression \<open>/version "(.*)"/\<close>, matched at the head of
  the input; the result is the text of the group. The star is greedy: it first takes one
  more character that is not a line terminator and tries the rest; only when that fails
  does it stop and ask for the closing quote here.
\<close>

fun dotStarQuote :: "string \<Rightarrow> string option" where
  "dotStarQuote [] = None"
| "dotStarQuote (c # cs) =
     (case (if isLineTerminator c then None else dotStarQuote cs) of
        Some g \<Rightarrow> Some (c # g)
      | None \<Rightarrow> if c = CHR 0x22 then Some [] else None)"

text \<open>The whole expression at one position: the literal \<open>version "\<close>, then the tail.\<close>

definition matchVersionAt :: "string \<Rightarrow> string option" where
  \<open>matchVersionAt s =
     (if prefix ''version "'' s then dotStarQuote (drop 9 s) else None)\<close>

text \<open>
  \<open>regexp.exec(content)\<close> for a fresh \<open>/version "(.*)"/g\<close> (\<open>lastIndex = 0\<close>): the
  positions are tried from the left; the result is \<open>match[1]\<close> of the first match.
\<close>

fun regexpExecVersion :: "string \<Rightarrow> string option" where
  "regexpExecVersion [] = None"
| "regexpExecVersion (c # cs) =
     (case matchVersionAt (c # cs) of
        Some g \<Rightarrow> Some g
      | None \<Rightarrow> regexpExecVersion cs)"

text \<open>\<open>/\d+/g.exec(version)\<close>: \<open>match[0]\<close>, the leftmost maximal run of digits.\<close>

definition regexpExecDigits :: "string \<Rightarrow> string option" where
  "regexpExecDigits s =
     (let r = takeWhile isDigit (dropWhile (\<lambda>c. \<not> isDigit c) s)
      in if r = [] then None else Some r)"

text \<open>
  \<open>parseInt(digits, 10)\<close> on a non-empty run of digits. JavaScript returns the nearest
  double, which is the exact value below \<open>2^53\<close>; the callers only compare the result with
  11 and print it when it is below 11, where both agree.
\<close>

definition parseInt10 :: "string \<Rightarrow> nat" where
  "parseInt10 ds = foldl (\<lambda>n c. 10 * n + digitValue c) 0 ds"

definition parseMajorVersion :: "string \<Rightarrow> nat" where
  "parseMajorVersion content =
     (case regexpExecVersion content of
        None \<Rightarrow> 0
      | Some m1 \<Rightarrow>
          (let version = (if startsWith m1 ''1.'' then substring m1 2 else m1)
           in case regexpExecDigits version of
                None \<Rightarrow> 0
              | Some m0 \<Rightarrow> parseInt10 m0))"

subsection \<open>The version-parsing policy in the specification's words\<close>

text \<open>
  The rest of the line: the text up to the first line terminator.
\<close>

definition lineOf :: "string \<Rightarrow> string" where
  "lineOf s = takeWhile (\<lambda>c. \<not> isLineTerminator c) s"

definition uptoLastQuote :: "string \<Rightarrow> string" where
  "uptoLastQuote l = rev (tl (dropWhile (\<lambda>c. c \<noteq> CHR 0x22) (rev l)))"

text \<open>
  ``A quoted token following the literal word version'': the first place where
  \<open>version "\<close> stands with a closing quote later on the same line; the token is the text
  between the opening quote and the last quote of that line.
\<close>

definition quotedAt :: "string \<Rightarrow> nat \<Rightarrow> bool" where
  \<open>quotedAt b i =
     (prefix ''version "'' (drop i b) \<and> CHR 0x22 \<in> set (lineOf (drop 9 (drop i b))))\<close>

definition quotedToken :: "string \<Rightarrow> string option" where
  "quotedToken b =
     (case find (quotedAt b) [0..<length b] of
        None \<Rightarrow> None
      | Some i \<Rightarrow> Some (uptoLastQuote (lineOf (drop 9 (drop i b)))))"



section \<open>The environment of the extension\<close>

text \<open>
  What the program reads from its host is a parameter of the model: the platform, the
  settings, the environment, the file system, the child process and the network, and the
  functions of the libraries it imports (\<open>path\<close>, \<open>expand-tilde\<close>, \<open>path-exists\<close>,
  \<open>find-java-home\<close>, \<open>arch\<close>, \<open>child_process\<close>, \<open>request-promise-native\<close>). A theorem
  about a \<open>world\<close> holds whatever these are.
\<close>

datatype js_error = JsError string

text \<open>A settled promise: \<open>Inl\<close> is a rejection, \<open>Inr\<close> the value it resolves to.\<close>

type_synonym 'a promise = "js_error + 'a"

datatype json =
    JNull
  | JBool bool
  | JNumber int
  | JString string
  | JArray "json list"
  | JObject "(string \<times> json) list"

text \<open>
  The arguments \<open>(err, stdout, stderr)\<close> that \<open>cp.execFile\<close> hands to its callback. On an
  error \<open>stdout\<close> and \<open>stderr\<close> still hold what the child process wrote. The callback is
  taken to be called: the program sets no timeout, and a child that never ends is outside
  the model.
\<close>

record exec_result =
  err :: "js_error option"
  stdout :: string
  stderr :: string

record world =
  platform :: string
  architecture :: string
  getConfiguration :: "string \<Rightarrow> string option"
  env :: "string \<Rightarrow> string option"
  findJavaHome :: "js_error + string"
  expandTilde :: "string \<Rightarrow> string"
  path_join :: "string \<Rightarrow> string \<Rightarrow> string"
  path_resolve :: "string \<Rightarrow> string \<Rightarrow> string"
  path_parse_name :: "string \<Rightarrow> string"
  pathExists :: "string \<Rightarrow> bool"
  execFile :: "string \<Rightarrow> string list \<Rightarrow> exec_result"
  request_get :: "string \<Rightarrow> json promise"

text \<open>
  The file system, process and network operations a function performs, in order, and an
  asynchronous function as the operations it performs with the promise it returns.
\<close>

datatype effect =
    PathExists string
  | ExecFile string "string list"
  | HttpGet string

type_synonym 'a io = "effect list \<times> 'a promise"

text \<open>\<open>await m\<close>, then \<open>k\<close>: a rejection of \<open>m\<close> is the rejection of the whole.\<close>

definition await :: "'a io \<Rightarrow> ('a \<Rightarrow> 'b io) \<Rightarrow> 'b io" where
  "await m k =
     (case m of
        (fx, Inl e) \<Rightarrow> (fx, Inl e)
      | (fx, Inr x) \<Rightarrow> (case k x of (fx', r) \<Rightarrow> (fx @ fx', r)))"

text \<open>
  \<open>path.posix.parse(p).name\<close> of Node.js, from its documentation: the last segment of the
  path, trailing slashes ignored, without its extension; the extension starts at the last
  dot of the segment, unless that dot is the segment's first character or the segment is
  \<open>..\<close>. It is the \<open>path_parse_name\<close> of a world that is not Windows.
\<close>

definition posixBase :: "string \<Rightarrow> string" where
  "posixBase p =
     rev (takeWhile (\<lambda>c. c \<noteq> CHR ''/'') (dropWhile (\<lambda>c. c = CHR ''/'') (rev p)))"

definition posixParseName :: "string \<Rightarrow> string" where
  "posixParseName p =
     (let base = posixBase p;
          beforeDot = rev (tl (dropWhile (\<lambda>c. c \<noteq> CHR ''.'') (rev base)))
      in if CHR ''.'' \<notin> set base \<or> beforeDot = [] \<or> base = ''..'' then base
         else beforeDot)"

section \<open>java-runtime/index.ts: discovery and validation\<close>

text \<open>
  Modelled from the spec: the declarations of \<open>./types\<close> (\<open>JavaRuntimeEntry\<close>,
  \<open>JavaRuntimeEntryTypes\<close>) are not among the sources. The fields are those
  \<open>index.ts\<close> reads and writes; an optional field that is \<open>undefined\<close> is \<open>None\<close>.
\<close>

datatype JavaRuntimeEntryTypes = UserSetting | EnvironmentVariable | Other

record JavaRuntimeEntry =
  name :: string
  path :: "string option"
  type :: JavaRuntimeEntryTypes
  actionUri :: "string option"
  isValid :: "bool option"
  hint :: "string option"

definition MIN_JDK_VERSION :: nat where
  "MIN_JDK_VERSION = 11"

definition isWindows :: "world \<Rightarrow> bool" where
  "isWindows w = (indexOf (platform w) ''win'' = 0)"

definition JAVAC_FILENAME :: "world \<Rightarrow> string" where
  "JAVAC_FILENAME w = path_join w ''bin'' (''javac'' @ (if isWindows w then ''.exe'' else []))"

definition JAVA_FILENAME :: "world \<Rightarrow> string" where
  "JAVA_FILENAME w = path_join w ''bin'' (''java'' @ (if isWindows w then ''.exe'' else []))"

text \<open>
  \<open>getJavaVersion\<close>: the promise resolves in the callback of \<open>execFile\<close>, to the version
  parsed from \<open>stderr\<close>; the callback does not read \<open>err\<close> and never calls \<open>reject\<close>.
\<close>

definition getJavaVersion :: "world \<Rightarrow> string option \<Rightarrow> nat io" where
  "getJavaVersion w javaHome =
     (case javaHome of
        None \<Rightarrow> ([], Inr 0)
      | Some h \<Rightarrow>
          if h = [] then ([], Inr 0)
          else (let file = path_resolve w h (JAVA_FILENAME w)
                in ([ExecFile file [''-version'']],
                    Inr (parseMajorVersion (stderr (execFile w file [''-version'']))))))"

text \<open>
  An entry object is an address in the store of entry objects; \<open>newEntry\<close> is an object
  literal. A live reference is below the length of the store.
\<close>

type_synonym addr = nat

type_synonym heap = "JavaRuntimeEntry list"

definition newEntry :: "JavaRuntimeEntry \<Rightarrow> heap \<Rightarrow> addr \<times> heap" where
  "newEntry e h = (length h, h @ [e])"

text \<open>
  \<open>findPossibleJdkInstallations\<close>: three object literals, then the callback of
  \<open>findJavaHome\<close>, which pushes a fourth when there is no error, and resolves.
\<close>

definition findPossibleJdkInstallations :: "world \<Rightarrow> heap \<Rightarrow> addr list promise \<times> heap" where
  "findPossibleJdkInstallations w h =
     (let (a1, h1) = newEntry
            \<lparr>name = ''java.home'', path = getConfiguration w ''java.home'', type = UserSetting,
             actionUri = Some ''command:workbench.action.openSettings?%22java.home%22'',
             isValid = None, hint = None\<rparr> h;
          (a2, h2) = newEntry
            \<lparr>name = ''JDK_HOME'', path = env w ''JDK_HOME'', type = EnvironmentVariable,
             actionUri = None, isValid = None, hint = None\<rparr> h1;
          (a3, h3) = newEntry
            \<lparr>name = ''JAVA_HOME'', path = env w ''JAVA_HOME'', type = EnvironmentVariable,
             actionUri = None, isValid = None, hint = None\<rparr> h2;
          entries = [a1, a2, a3]
      in case findJavaHome w of
           Inl e \<Rightarrow> (Inr entries, h3)
         | Inr home \<Rightarrow>
             (let (a4, h4) = newEntry
                    \<lparr>name = ''Other'', path = Some home, type = Other,
                     actionUri = None, isValid = None, hint = None\<rparr> h3
              in (Inr (entries @ [a4]), h4)))"

definition checkJdkInstallation :: "world \<Rightarrow> string option \<Rightarrow> bool io" where
  "checkJdkInstallation w javaHome =
     (case javaHome of
        None \<Rightarrow> ([], Inr False)
      | Some h \<Rightarrow>
          if h = [] then ([], Inr False)
          else (let h' = expandTilde w h;
                    file = path_resolve w h' (JAVAC_FILENAME w)
                in ([PathExists file], Inr (pathExists w file))))"

text \<open>\<open>_.isEmpty(p)\<close> on a string or \<open>undefined\<close>, and \<open>p || ""\<close>.\<close>

definition isEmpty :: "string option \<Rightarrow> bool" where
  "isEmpty p = (case p of None \<Rightarrow> True | Some s \<Rightarrow> s = [])"

definition orEmpty :: "string option \<Rightarrow> string" where
  "orEmpty p = (case p of None \<Rightarrow> [] | Some s \<Rightarrow> s)"

text \<open>
  The arrow function that \<open>findJavaRuntimeEntries\<close> maps over the entries, on the fields
  of the object it is given. It assigns \<open>isValid\<close> and \<open>hint\<close> only on its way out, after
  its last \<open>await\<close>.
\<close>

definition validateEntry :: "world \<Rightarrow> JavaRuntimeEntry \<Rightarrow> JavaRuntimeEntry io" where
  \<open>validateEntry w entry =
     await (checkJdkInstallation w (path entry)) (\<lambda>ok.
       if \<not> ok then
         (let hint0 = ''This path is not pointing to a JDK.'';
              pathObject_name = path_parse_name w (orEmpty (path entry));
              hint1 = (if pathObject_name \<noteq> [] \<and> toLowerCase pathObject_name = ''bin''
                       then hint0 @ '' Try remove the "bin" from the path.'' else hint0)
          in ([], Inr (entry\<lparr>isValid := Some False, hint := Some hint1\<rparr>)))
       else
         await (getJavaVersion w (path entry)) (\<lambda>version.
           if version < MIN_JDK_VERSION then
             ([], Inr (entry\<lparr>isValid := Some False,
                hint := Some (''JDK 11+ is required while the path is pointing to version ''
                              @ numberToString version)\<rparr>))
           else ([], Inr (entry\<lparr>isValid := Some True\<rparr>))))\<close>

text \<open>The same function on a reference: it returns the reference it was given.\<close>

definition validateEntryAt :: "world \<Rightarrow> addr \<Rightarrow> heap \<Rightarrow> addr io \<times> heap" where
  "validateEntryAt w a h =
     (case validateEntry w (h ! a) of
        (fx, Inl e) \<Rightarrow> ((fx, Inl e), h)
      | (fx, Inr entry') \<Rightarrow> ((fx, Inr a), h[a := entry']))"

text \<open>
  \<open>Promise.all(_.map(xs, f))\<close>: every call is made; the result is the list of the values
  in the order of \<open>xs\<close>, or a rejection when a call rejects. The model runs the calls one
  after the other. In the program they interleave at their awaits, which changes the order
  of the operations of different entries only: each call writes to its own entry.
\<close>

fun promiseAllMap :: "('a \<Rightarrow> heap \<Rightarrow> 'b io \<times> heap) \<Rightarrow> 'a list \<Rightarrow> heap \<Rightarrow> 'b list io \<times> heap" where
  "promiseAllMap f [] h = (([], Inr []), h)"
| "promiseAllMap f (x # xs) h =
     (case f x h of
        ((fx, r), h1) \<Rightarrow>
          (case promiseAllMap f xs h1 of
             ((fxs, rs), h2) \<Rightarrow>
               ((fx @ fxs,
                 (case r of
                    Inl e \<Rightarrow> Inl e
                  | Inr y \<Rightarrow> (case rs of Inl e \<Rightarrow> Inl e | Inr ys \<Rightarrow> Inr (y # ys)))),
                h2)))"

definition findJavaRuntimeEntries :: "world \<Rightarrow> heap \<Rightarrow> addr list io \<times> heap" where
  "findJavaRuntimeEntries w h =
     (case findPossibleJdkInstallations w h of
        (Inl e, h1) \<Rightarrow> (([], Inl e), h1)
      | (Inr entries, h1) \<Rightarrow> promiseAllMap (validateEntryAt w) entries h1)"

text \<open>\<open>xs.findIndex(p)\<close>: the first index, or \<open>-1\<close>; \<open>_.some(xs, p)\<close>.\<close>

definition findIndex :: "'a list \<Rightarrow> ('a \<Rightarrow> bool) \<Rightarrow> int" where
  "findIndex xs p =
     (case find (\<lambda>i. p (xs ! i)) [0..<length xs] of None \<Rightarrow> - 1 | Some i \<Rightarrow> int i)"

definition some :: "'a list \<Rightarrow> ('a \<Rightarrow> bool) \<Rightarrow> bool" where
  "some xs p = list_ex p xs"

text \<open>
  \<open>validateJavaRuntime\<close> after its \<open>await\<close>, on the entries it got: the value it returns
  is \<open>isValid\<close> of an entry, a boolean or \<open>undefined\<close>, or the boolean of \<open>_.some\<close>.
\<close>

definition currentValidity :: "JavaRuntimeEntry list \<Rightarrow> bool option" where
  "currentValidity entries =
     (let currentPathIndex = findIndex entries (\<lambda>entry. \<not> isEmpty (path entry))
      in if currentPathIndex \<noteq> - 1 then isValid (entries ! nat currentPathIndex)
         else Some (some entries (\<lambda>entry. isValid entry = Some True)))"

definition validateJavaRuntime :: "world \<Rightarrow> heap \<Rightarrow> bool option io \<times> heap" where
  "validateJavaRuntime w h =
     (case findJavaRuntimeEntries w h of
        ((fx, Inl e), h1) \<Rightarrow> ((fx, Inl e), h1)
      | ((fx, Inr entries), h1) \<Rightarrow>
          ((fx, Inr (currentValidity (map (\<lambda>a. h1 ! a) entries))), h1))"

text \<open>
  \<open>suggestOpenJdk\<close>: an argument that is \<open>undefined\<close> takes its default; the promise of
  \<open>request.get\<close> is the one returned.
\<close>

definition suggestOpenJdk :: "world \<Rightarrow> string option \<Rightarrow> string option \<Rightarrow> json io" where
  "suggestOpenJdk w jdkVersionArg implArg =
     (let jdkVersion = (case jdkVersionArg of None \<Rightarrow> ''openjdk11'' | Some v \<Rightarrow> v);
          impl = (case implArg of None \<Rightarrow> ''hotspot'' | Some i \<Rightarrow> i);
          os = (if platform w = ''win32'' then ''windows''
                else if platform w = ''darwin'' then ''mac''
                else ''linux'');
          arch = (if architecture w = ''x86'' then ''x32'' else architecture w);
          uri = ''https://api.adoptopenjdk.net/v2/info/releases/'' @ jdkVersion
                @ ''?openjdk_impl='' @ impl @ ''&arch='' @ arch @ ''&os='' @ os
                @ ''&type=jdk&release=latest''
      in ([HttpGet uri], request_get w uri))"

text \<open>Names for the expressions of the functions above that the theorems mention.\<close>

abbreviation javacFile :: "world \<Rightarrow> string \<Rightarrow> string" where
  "javacFile w p \<equiv> path_resolve w (expandTilde w p) (JAVAC_FILENAME w)"

abbreviation javaFile :: "world \<Rightarrow> string \<Rightarrow> string" where
  "javaFile w p \<equiv> path_resolve w p (JAVA_FILENAME w)"

abbreviation detectedVersion :: "world \<Rightarrow> string \<Rightarrow> nat" where
  "detectedVersion w p \<equiv> parseMajorVersion (stderr (execFile w (javaFile w p) [''-version'']))"

abbreviation notJdkHint :: string where
  "notJdkHint \<equiv> ''This path is not pointing to a JDK.''"

abbreviation removeBinHint :: string where
  \<open>removeBinHint \<equiv> '' Try remove the "bin" from the path.''\<close>

abbreviation tooLowHint :: "nat \<Rightarrow> string" where
  "tooLowHint v \<equiv> ''JDK 11+ is required while the path is pointing to version '' @ numberToString v"

text \<open>The entry that the promise of \<open>validateEntry\<close> resolves to.\<close>

abbreviation validated :: "world \<Rightarrow> JavaRuntimeEntry \<Rightarrow> JavaRuntimeEntry" where
  "validated w e \<equiv> projr (snd (validateEntry w e))"

text \<open>The entry objects that one call of \<open>findPossibleJdkInstallations\<close> creates.\<close>

definition candidates :: "world \<Rightarrow> JavaRuntimeEntry list" where
  "candidates w = snd (findPossibleJdkInstallations w [])"

section \<open>The three panels\<close>

text \<open>
  The host of the panels is Visual Studio Code. A panel is the handle that the host
  created for it. The state holds the three module variables and, of the host, the panels
  created and disposed so far, the document and icon of each panel, the listeners that
  the modules registered, and the calls made to the host in their order; it also holds
  the store of entry objects and the operations of discovery, which the panel of the
  runtime starts.
\<close>

type_synonym panel = nat

datatype feature = JavaRuntime | ExtGuide | GettingStarted

text \<open>A message \<open>e\<close> of a panel's page: \<open>e.command\<close> and the fields that the modules read.\<close>

record web_message =
  msg_command :: string
  msg_jdkVersion :: "string option"
  msg_jvmImpl :: "string option"
  msg_tabId :: "string option"

datatype posted =
    ApplyJdkInfo json
  | ShowJavaRuntimeEntries "JavaRuntimeEntry list"

datatype ui_event =
    CreateWebviewPanel panel string string
  | Reveal panel
  | Dispose panel
  | PostMessage panel posted
  | SendInfo string "string option"

record ext =
  javaRuntimeView :: "panel option"
  javaExtGuideView :: "panel option"
  javaGettingStartedView :: "panel option"
  panels :: nat
  disposed :: "panel list"
  webviewHtml :: "panel \<Rightarrow> string option"
  iconPath :: "panel \<Rightarrow> string option"
  disposeListeners :: "(panel \<times> feature) list"
  messageListeners :: "(panel \<times> feature \<times> string) list"
  ui :: "ui_event list"
  objects :: heap
  effects :: "effect list"

text \<open>
  Modelled from the spec: \<open>loadTextFromFile\<close> and \<open>getExtensionContext\<close> of
  \<open>../utils\<close> are not among the sources; the first loads the fixed static document of
  a panel, the second returns the context of the extension, which is the record below.
  A handler runs to its end in one step: the document is taken to be loaded before
  anything else happens to the panel.
\<close>

record extension_context =
  extensionPath :: string
  asAbsolutePath :: "string \<Rightarrow> string"
  loadTextFromFile :: "string \<Rightarrow> string"

subsection \<open>The calls to the host\<close>

text \<open>
  \<open>vscode.window.createWebviewPanel\<close> returns a new handle; \<open>panel.reveal()\<close>;
  \<open>panel.webview.postMessage\<close>; \<open>sendInfo\<close> of the telemetry wrapper.
\<close>

definition createWebviewPanel :: "string \<Rightarrow> string \<Rightarrow> ext \<Rightarrow> panel \<times> ext" where
  "createWebviewPanel viewType title s =
     (panels s,
      s\<lparr>panels := Suc (panels s), ui := ui s @ [CreateWebviewPanel (panels s) viewType title]\<rparr>)"

definition reveal :: "panel \<Rightarrow> ext \<Rightarrow> ext" where
  "reveal p s = s\<lparr>ui := ui s @ [Reveal p]\<rparr>"

definition postMessage :: "panel \<Rightarrow> posted \<Rightarrow> ext \<Rightarrow> ext" where
  "postMessage p m s = s\<lparr>ui := ui s @ [PostMessage p m]\<rparr>"

definition sendInfo :: "string \<Rightarrow> string option \<Rightarrow> ext \<Rightarrow> ext" where
  "sendInfo operationId tabId s = s\<lparr>ui := ui s @ [SendInfo operationId tabId]\<rparr>"

subsection \<open>java-runtime/index.ts\<close>

definition onDidDisposeWebviewPanel_runtime :: "ext \<Rightarrow> ext" where
  "onDidDisposeWebviewPanel_runtime s = s\<lparr>javaRuntimeView := None\<rparr>"

text \<open>
  The listener of \<open>onDidReceiveMessage\<close>: a rejection of \<open>suggestOpenJdk\<close> ends the
  listener, and nothing is posted.
\<close>

definition onDidReceiveMessage_runtime :: "world \<Rightarrow> panel \<Rightarrow> web_message \<Rightarrow> ext \<Rightarrow> ext" where
  "onDidReceiveMessage_runtime w webviewPanel e s =
     (if msg_command e = ''requestJdkInfo'' then
        (case suggestOpenJdk w (msg_jdkVersion e) (msg_jvmImpl e) of
           (fx, Inl x) \<Rightarrow> s\<lparr>effects := effects s @ fx\<rparr>
         | (fx, Inr jdkInfo) \<Rightarrow>
             postMessage webviewPanel (ApplyJdkInfo jdkInfo) (s\<lparr>effects := effects s @ fx\<rparr>))
      else s)"

text \<open>
  \<open>initializeJavaRuntimeView\<close>. The two promises it starts at its end are followed to
  their settling here: the advice is posted when its request resolves, the entries when
  discovery resolves, with the values of the entry objects.
\<close>

definition initializeJavaRuntimeView ::
  "extension_context \<Rightarrow> world \<Rightarrow> panel \<Rightarrow> ext \<Rightarrow> ext" where
  "initializeJavaRuntimeView c w webviewPanel s =
     (let s1 = s\<lparr>iconPath := (iconPath s)(webviewPanel \<mapsto>
                     path_join w (extensionPath c) ''logo.lowres.png'')\<rparr>;
          resourceUri = asAbsolutePath c ''./out/assets/java-runtime/index.html'';
          s2 = s1\<lparr>webviewHtml := (webviewHtml s1)(webviewPanel \<mapsto> loadTextFromFile c resourceUri)\<rparr>;
          s3 = s2\<lparr>disposeListeners := disposeListeners s2 @ [(webviewPanel, JavaRuntime)]\<rparr>;
          s4 = s3\<lparr>messageListeners := messageListeners s3 @ [(webviewPanel, JavaRuntime, [])]\<rparr>;
          s5 = (case suggestOpenJdk w None None of
                  (fx, Inl x) \<Rightarrow> s4\<lparr>effects := effects s4 @ fx\<rparr>
                | (fx, Inr jdkInfo) \<Rightarrow>
                    postMessage webviewPanel (ApplyJdkInfo jdkInfo)
                      (s4\<lparr>effects := effects s4 @ fx\<rparr>))
      in case findJavaRuntimeEntries w (objects s5) of
           ((fx, Inl x), h') \<Rightarrow> s5\<lparr>objects := h', effects := effects s5 @ fx\<rparr>
         | ((fx, Inr entries), h') \<Rightarrow>
             postMessage webviewPanel (ShowJavaRuntimeEntries (map ((!) h') entries))
               (s5\<lparr>objects := h', effects := effects s5 @ fx\<rparr>))"

definition javaRuntimeCmdHandler ::
  "extension_context \<Rightarrow> world \<Rightarrow> string \<Rightarrow> ext \<Rightarrow> ext" where
  "javaRuntimeCmdHandler c w operationId s =
     (case javaRuntimeView s of
        Some v \<Rightarrow> reveal v s
      | None \<Rightarrow>
          (case createWebviewPanel ''java.runtime'' ''Configure Java Runtime'' s of
             (p, s1) \<Rightarrow> initializeJavaRuntimeView c w p (s1\<lparr>javaRuntimeView := Some p\<rparr>)))"

subsection \<open>ext-guide/index.ts\<close>

definition onDidDisposeWebviewPanel_extGuide :: "ext \<Rightarrow> ext" where
  "onDidDisposeWebviewPanel_extGuide s = s\<lparr>javaExtGuideView := None\<rparr>"

definition onDidReceiveMessage_extGuide :: "string \<Rightarrow> web_message \<Rightarrow> ext \<Rightarrow> ext" where
  "onDidReceiveMessage_extGuide operationId e s =
     (if msg_command e = ''tabActivated'' then sendInfo operationId (msg_tabId e) s else s)"

definition initializeJavaExtGuideView ::
  "extension_context \<Rightarrow> world \<Rightarrow> panel \<Rightarrow> string \<Rightarrow> ext \<Rightarrow> ext" where
  "initializeJavaExtGuideView c w webviewPanel operationId s =
     (let s1 = s\<lparr>iconPath := (iconPath s)(webviewPanel \<mapsto>
                     path_join w (extensionPath c) ''logo.lowres.png'')\<rparr>;
          resourceUri = asAbsolutePath c ''./out/assets/ext-guide/index.html'';
          s2 = s1\<lparr>webviewHtml := (webviewHtml s1)(webviewPanel \<mapsto> loadTextFromFile c resourceUri)\<rparr>;
          s3 = s2\<lparr>disposeListeners := disposeListeners s2 @ [(webviewPanel, ExtGuide)]\<rparr>
      in s3\<lparr>messageListeners := messageListeners s3 @ [(webviewPanel, ExtGuide, operationId)]\<rparr>)"

definition javaExtGuideCmdHandler ::
  "extension_context \<Rightarrow> world \<Rightarrow> string \<Rightarrow> ext \<Rightarrow> ext" where
  "javaExtGuideCmdHandler c w operationId s =
     (case javaExtGuideView s of
        Some v \<Rightarrow> reveal v s
      | None \<Rightarrow>
          (case createWebviewPanel ''java.extGuide'' ''Java Extension Guide'' s of
             (p, s1) \<Rightarrow>
               initializeJavaExtGuideView c w p operationId (s1\<lparr>javaExtGuideView := Some p\<rparr>)))"

subsection \<open>The getting-started module (unnamed/part_000)\<close>

definition onDidDisposeWebviewPanel_gettingStarted :: "ext \<Rightarrow> ext" where
  "onDidDisposeWebviewPanel_gettingStarted s = s\<lparr>javaGettingStartedView := None\<rparr>"

definition onDidReceiveMessage_gettingStarted :: "string \<Rightarrow> web_message \<Rightarrow> ext \<Rightarrow> ext" where
  "onDidReceiveMessage_gettingStarted operationId e s =
     (if msg_command e = ''tabActivated'' then sendInfo operationId (msg_tabId e) s else s)"

definition initializeJavaGettingStartedView ::
  "extension_context \<Rightarrow> world \<Rightarrow> panel \<Rightarrow> string \<Rightarrow> ext \<Rightarrow> ext" where
  "initializeJavaGettingStartedView c w webviewPanel operationId s =
     (let s1 = s\<lparr>iconPath := (iconPath s)(webviewPanel \<mapsto>
                     path_join w (extensionPath c) ''logo.lowres.png'')\<rparr>;
          resourceUri = asAbsolutePath c ''./out/assets/getting-started/index.html'';
          s2 = s1\<lparr>webviewHtml := (webviewHtml s1)(webviewPanel \<mapsto> loadTextFromFile c resourceUri)\<rparr>;
          s3 = s2\<lparr>disposeListeners := disposeListeners s2 @ [(webviewPanel, GettingStarted)]\<rparr>
      in s3\<lparr>messageListeners :=
               messageListeners s3 @ [(webviewPanel, GettingStarted, operationId)]\<rparr>)"

definition javaGettingStartedCmdHandler ::
  "extension_context \<Rightarrow> world \<Rightarrow> string \<Rightarrow> ext \<Rightarrow> ext" where
  "javaGettingStartedCmdHandler c w operationId s =
     (case javaGettingStartedView s of
        Some v \<Rightarrow> reveal v s
      | None \<Rightarrow>
          (case createWebviewPanel ''java.gettingStarted'' ''Java Getting Started'' s of
             (p, s1) \<Rightarrow>
               initializeJavaGettingStartedView c w p operationId
                 (s1\<lparr>javaGettingStartedView := Some p\<rparr>)))"

subsection \<open>Disposal\<close>

text \<open>
  \<open>panel.dispose()\<close>, and the host closing a panel for the user: the panel is disposed
  and the host calls the listeners of \<open>onDidDispose\<close> registered on it, each of which is
  the \<open>onDidDisposeWebviewPanel\<close> of its module. A panel that is already disposed, or
  that was never created, is left alone.
\<close>

definition onDidDisposeWebviewPanel :: "feature \<Rightarrow> ext \<Rightarrow> ext" where
  "onDidDisposeWebviewPanel f =
     (case f of
        JavaRuntime \<Rightarrow> onDidDisposeWebviewPanel_runtime
      | ExtGuide \<Rightarrow> onDidDisposeWebviewPanel_extGuide
      | GettingStarted \<Rightarrow> onDidDisposeWebviewPanel_gettingStarted)"

fun fireDispose :: "panel \<Rightarrow> (panel \<times> feature) list \<Rightarrow> ext \<Rightarrow> ext" where
  "fireDispose p [] s = s"
| "fireDispose p ((q, f) # ls) s =
     fireDispose p ls (if q = p then onDidDisposeWebviewPanel f s else s)"

definition dispose :: "panel \<Rightarrow> ext \<Rightarrow> ext" where
  "dispose p s =
     (if p \<in> set (disposed s) \<or> panels s \<le> p then s
      else fireDispose p (disposeListeners s)
             (s\<lparr>disposed := p # disposed s, ui := ui s @ [Dispose p]\<rparr>))"

subsection \<open>The serializers\<close>

text \<open>
  \<open>deserializeWebviewPanel\<close> of the three serializer classes. In the second and third the
  initialization runs inside \<open>instrumentOperation\<close>, which calls it at once with an
  operation id of its own.
\<close>

definition JavaRuntimeViewSerializer_deserializeWebviewPanel ::
  "extension_context \<Rightarrow> world \<Rightarrow> panel \<Rightarrow> ext \<Rightarrow> ext" where
  "JavaRuntimeViewSerializer_deserializeWebviewPanel c w webviewPanel s =
     (case javaRuntimeView s of
        Some v \<Rightarrow> dispose webviewPanel (reveal v s)
      | None \<Rightarrow> initializeJavaRuntimeView c w webviewPanel (s\<lparr>javaRuntimeView := Some webviewPanel\<rparr>))"

definition JavaExtGuideViewSerializer_deserializeWebviewPanel ::
  "extension_context \<Rightarrow> world \<Rightarrow> string \<Rightarrow> panel \<Rightarrow> ext \<Rightarrow> ext" where
  "JavaExtGuideViewSerializer_deserializeWebviewPanel c w operationId webviewPanel s =
     (case javaExtGuideView s of
        Some v \<Rightarrow> dispose webviewPanel (reveal v s)
      | None \<Rightarrow>
          initializeJavaExtGuideView c w webviewPanel operationId
            (s\<lparr>javaExtGuideView := Some webviewPanel\<rparr>))"

definition JavaGettingStartedViewSerializer_deserializeWebviewPanel ::
  "extension_context \<Rightarrow> world \<Rightarrow> string \<Rightarrow> panel \<Rightarrow> ext \<Rightarrow> ext" where
  "JavaGettingStartedViewSerializer_deserializeWebviewPanel c w operationId webviewPanel s =
     (case javaGettingStartedView s of
        Some v \<Rightarrow> dispose webviewPanel (reveal v s)
      | None \<Rightarrow>
          initializeJavaGettingStartedView c w webviewPanel operationId
            (s\<lparr>javaGettingStartedView := Some webviewPanel\<rparr>))"

subsection \<open>The extension as a transition system\<close>

text \<open>
  What can happen to the extension: the open command of a feature; the host restoring a
  panel of a feature, for which it creates the panel and calls the serializer; the user
  or the host closing a panel; a message of a panel's page, which the host hands to the
  listeners registered on that panel unless the panel is disposed.
\<close>

datatype action =
    Command feature string
  | Restore feature string
  | Close panel
  | Message panel web_message

definition view :: "feature \<Rightarrow> ext \<Rightarrow> panel option" where
  "view f s =
     (case f of
        JavaRuntime \<Rightarrow> javaRuntimeView s
      | ExtGuide \<Rightarrow> javaExtGuideView s
      | GettingStarted \<Rightarrow> javaGettingStartedView s)"

definition cmdHandler :: "extension_context \<Rightarrow> world \<Rightarrow> feature \<Rightarrow> string \<Rightarrow> ext \<Rightarrow> ext" where
  "cmdHandler c w f =
     (case f of
        JavaRuntime \<Rightarrow> javaRuntimeCmdHandler c w
      | ExtGuide \<Rightarrow> javaExtGuideCmdHandler c w
      | GettingStarted \<Rightarrow> javaGettingStartedCmdHandler c w)"

definition deserializeWebviewPanel ::
  "extension_context \<Rightarrow> world \<Rightarrow> feature \<Rightarrow> string \<Rightarrow> panel \<Rightarrow> ext \<Rightarrow> ext" where
  "deserializeWebviewPanel c w f operationId =
     (case f of
        JavaRuntime \<Rightarrow> JavaRuntimeViewSerializer_deserializeWebviewPanel c w
      | ExtGuide \<Rightarrow> JavaExtGuideViewSerializer_deserializeWebviewPanel c w operationId
      | GettingStarted \<Rightarrow> JavaGettingStartedViewSerializer_deserializeWebviewPanel c w operationId)"

definition onDidReceiveMessage ::
  "world \<Rightarrow> panel \<times> feature \<times> string \<Rightarrow> web_message \<Rightarrow> ext \<Rightarrow> ext" where
  "onDidReceiveMessage w l e =
     (case l of
        (p, JavaRuntime, operationId) \<Rightarrow> onDidReceiveMessage_runtime w p e
      | (p, ExtGuide, operationId) \<Rightarrow> onDidReceiveMessage_extGuide operationId e
      | (p, GettingStarted, operationId) \<Rightarrow> onDidReceiveMessage_gettingStarted operationId e)"

fun fireMessage :: "world \<Rightarrow> panel \<Rightarrow> web_message \<Rightarrow> (panel \<times> feature \<times> string) list \<Rightarrow> ext \<Rightarrow> ext" where
  "fireMessage w p e [] s = s"
| "fireMessage w p e (l # ls) s =
     fireMessage w p e ls (if fst l = p then onDidReceiveMessage w l e s else s)"

fun step :: "extension_context \<Rightarrow> world \<Rightarrow> action \<Rightarrow> ext \<Rightarrow> ext" where
  "step c w (Command f operationId) s = cmdHandler c w f operationId s"
| "step c w (Restore f operationId) s =
     deserializeWebviewPanel c w f operationId (panels s) (s\<lparr>panels := Suc (panels s)\<rparr>)"
| "step c w (Close p) s = dispose p s"
| "step c w (Message p e) s =
     (if p \<in> set (disposed s) then s else fireMessage w p e (messageListeners s) s)"

text \<open>The extension when it is activated, and the states it can reach.\<close>

definition activated :: ext where
  "activated =
     \<lparr>javaRuntimeView = None, javaExtGuideView = None, javaGettingStartedView = None,
      panels = 0, disposed = [], webviewHtml = (\<lambda>p. None), iconPath = (\<lambda>p. None),
      disposeListeners = [], messageListeners = [], ui = [], objects = [], effects = []\<rparr>"


text \<open>The state after a list of actions.\<close>

definition run :: "extension_context \<Rightarrow> world \<Rightarrow> action list \<Rightarrow> ext" where
  "run c w as = foldl (\<lambda>s a. step c w a s) activated as"







section \<open>Concrete worlds\<close>

text \<open>
  Worlds at which the theorems below are evaluated. In each of them \<open>path.join\<close> and
  \<open>path.resolve\<close> put a slash between their two arguments, which is what Node.js does for
  the absolute paths and plain names used here, and \<open>expandTilde\<close> replaces a leading
  tilde by \<open>/home/dev\<close>.
\<close>

definition javaBanner17 :: string where
  \<open>javaBanner17 =
     ''openjdk version "17.0.1" 2021-10-19\<newline>OpenJDK Runtime Environment (build 17.0.1+12-39)''\<close>

definition javaBanner8 :: string where
  \<open>javaBanner8 =
     ''openjdk version "1.8.0_292"\<newline>OpenJDK Runtime Environment (build 1.8.0_292-b10)''\<close>

text \<open>
  A Linux host with no \<open>java.home\<close> setting and no \<open>JDK_HOME\<close>; \<open>JAVA_HOME\<close> is a JDK 17,
  \<open>/opt/jdk8\<close> is a JDK 8, and the automatic detection fails.
\<close>

definition linuxWorld :: world where
  "linuxWorld =
     \<lparr>platform = ''linux'', architecture = ''x64'',
      getConfiguration = (\<lambda>k. None),
      env = (\<lambda>k. if k = ''JAVA_HOME'' then Some ''/usr/lib/jvm/jdk-17'' else None),
      findJavaHome = Inl (JsError ''no java home''),
      expandTilde = (\<lambda>p. if take 1 p = ''~'' then ''/home/dev'' @ drop 1 p else p),
      path_join = (\<lambda>a b. a @ ''/'' @ b),
      path_resolve = (\<lambda>a b. a @ ''/'' @ b),
      path_parse_name = posixParseName,
      pathExists = (\<lambda>p. p = ''/usr/lib/jvm/jdk-17/bin/javac'' \<or> p = ''/opt/jdk8/bin/javac''),
      execFile = (\<lambda>file args.
        if file = ''/usr/lib/jvm/jdk-17/bin/java'' \<and> args = [''-version'']
        then \<lparr>err = None, stdout = [], stderr = javaBanner17\<rparr>
        else if file = ''/opt/jdk8/bin/java'' \<and> args = [''-version'']
        then \<lparr>err = None, stdout = [], stderr = javaBanner8\<rparr>
        else \<lparr>err = Some (JsError ''spawn ENOENT''), stdout = [], stderr = []\<rparr>),
      request_get = (\<lambda>uri. Inr (JArray []))\<rparr>"

text \<open>
  The Linux host with \<open>java.home\<close> set to \<open>/opt/broken\<close>, a JDK whose \<open>java -version\<close>
  prints its banner and then ends with exit code 1: the callback of \<open>execFile\<close> gets an
  error, and the banner in \<open>stderr\<close>.
\<close>

definition brokenJavaWorld :: world where
  "brokenJavaWorld =
     linuxWorld
       \<lparr>getConfiguration := (\<lambda>k. if k = ''java.home'' then Some ''/opt/broken'' else None),
        pathExists := (\<lambda>p. p = ''/opt/broken/bin/javac''),
        execFile := (\<lambda>file args.
          \<lparr>err = Some (JsError ''Command failed: /opt/broken/bin/java -version''),
           stdout = [], stderr = javaBanner17\<rparr>)\<rparr>"

text \<open>
  The Linux host with \<open>java.home\<close> set to a directory \<open>bin.old\<close> that holds no compiler.
\<close>

definition binOldWorld :: world where
  "binOldWorld =
     linuxWorld\<lparr>getConfiguration := (\<lambda>k. if k = ''java.home'' then Some ''/opt/jdk/bin.old'' else None)\<rparr>"

text \<open>The Linux host with \<open>java.home\<close> set to the JDK 8.\<close>

definition jdk8World :: world where
  "jdk8World =
     linuxWorld\<lparr>getConfiguration := (\<lambda>k. if k = ''java.home'' then Some ''/opt/jdk8'' else None)\<rparr>"

text \<open>
  The Linux host on which no \<open>java\<close> can be started (the callback gets the error of the
  spawn and empty outputs), and on which the request to the release service is rejected.
\<close>

definition noJavaWorld :: world where
  "noJavaWorld =
     linuxWorld
       \<lparr>execFile := (\<lambda>file args.
          \<lparr>err = Some (JsError ''spawn ENOENT''), stdout = [], stderr = []\<rparr>),
        request_get := (\<lambda>uri. Inl (JsError ''ETIMEDOUT''))\<rparr>"


section \<open>Properties of parseMajorVersion\<close>

lemma dotStarQuote_line:
  "dotStarQuote s =
     (if CHR 0x22 \<in> set (lineOf s) then Some (uptoLastQuote (lineOf s)) else None)"
proof (induction s)
  case Nil
  show ?case by (simp add: lineOf_def)
next
  case (Cons c cs)
  show ?case
  proof (cases "isLineTerminator c")
    case True
    then have "c \<noteq> CHR 0x22" by (auto simp: isLineTerminator_def)
    with True show ?thesis by (simp add: lineOf_def)
  next
    case nl: False
    show ?thesis
    proof (cases "CHR 0x22 \<in> set (lineOf cs)")
      case True
      then have "dropWhile (\<lambda>c. c \<noteq> CHR 0x22) (rev (lineOf cs)) \<noteq> []"
        by (simp add: dropWhile_eq_Nil_conv)
      then have "tl (dropWhile (\<lambda>c. c \<noteq> CHR 0x22) (rev (lineOf cs)) @ [c]) =
                 tl (dropWhile (\<lambda>c. c \<noteq> CHR 0x22) (rev (lineOf cs))) @ [c]"
        by simp
      moreover have "dropWhile (\<lambda>c. c \<noteq> CHR 0x22) (rev (lineOf cs) @ [c]) =
                 dropWhile (\<lambda>c. c \<noteq> CHR 0x22) (rev (lineOf cs)) @ [c]"
        using True by (intro dropWhile_append1[where x="CHR 0x22"]) auto
      ultimately show ?thesis
        using nl True Cons.IH by (simp add: lineOf_def uptoLastQuote_def)
    next
      case False
      then have "dropWhile (\<lambda>c. c \<noteq> CHR 0x22) (rev (lineOf cs) @ [c]) =
                 dropWhile (\<lambda>c. c \<noteq> CHR 0x22) [c]"
        by (intro dropWhile_append2) auto
      then show ?thesis
        using nl False Cons.IH by (auto simp: lineOf_def uptoLastQuote_def)
    qed
  qed
qed

lemma matchVersionAt_quotedAt:
  "matchVersionAt s =
     (if quotedAt s 0 then Some (uptoLastQuote (lineOf (drop 9 s))) else None)"
  by (simp add: matchVersionAt_def quotedAt_def dotStarQuote_line)

lemma quotedAt_Suc: "quotedAt (c # cs) (Suc i) = quotedAt cs i"
  by (simp add: quotedAt_def)

lemma quotedAt_Nil: "\<not> quotedAt [] i"
  by (simp add: quotedAt_def)

lemma find_map_option: "find P (map f xs) = map_option f (find (\<lambda>x. P (f x)) xs)"
  by (induction xs) auto

lemma find_upt_Suc:
  "find P [0..<Suc n] =
     (if P 0 then Some 0 else map_option Suc (find (\<lambda>i. P (Suc i)) [0..<n]))"
proof -
  have "[0..<Suc n] = 0 # map Suc [0..<n]"
    by (simp add: upt_conv_Cons map_Suc_upt del: upt_Suc)
  then show ?thesis
    by (simp add: find_map_option del: upt_Suc)
qed

lemma regexpExecVersion_quotedToken: "regexpExecVersion b = quotedToken b"
proof (induction b)
  case Nil
  show ?case by (simp add: quotedToken_def)
next
  case (Cons c cs)
  show ?case
  proof (cases "quotedAt (c # cs) 0")
    case True
    then show ?thesis
      by (simp add: matchVersionAt_quotedAt quotedToken_def find_upt_Suc
          del: upt_Suc drop_drop)
  next
    case False
    then show ?thesis
      using Cons.IH
      by (simp add: matchVersionAt_quotedAt quotedToken_def find_upt_Suc quotedAt_Suc
          del: upt_Suc drop_drop split: option.splits)
  qed
qed




lemma matchVersionAt_literal: "matchVersionAt (''version \"'' @ rest) = dotStarQuote rest"
  by (simp add: matchVersionAt_def)








lemma regexpExecVersion_None_iff:
  "regexpExecVersion b = None \<longleftrightarrow>
     \<not> (\<exists>pre tok post. b = pre @ ''version \"'' @ tok @ CHR 0x22 # post \<and>
           (\<forall>c\<in>set tok. \<not> isLineTerminator c))"
proof
  assume n: "regexpExecVersion b = None"
  show "\<not> (\<exists>pre tok post. b = pre @ ''version \"'' @ tok @ CHR 0x22 # post \<and>
           (\<forall>c\<in>set tok. \<not> isLineTerminator c))"
  proof
    assume "\<exists>pre tok post. b = pre @ ''version \"'' @ tok @ CHR 0x22 # post \<and>
           (\<forall>c\<in>set tok. \<not> isLineTerminator c)"
    then obtain pre tok post where b: "b = pre @ ''version \"'' @ tok @ CHR 0x22 # post"
      and tok: "\<forall>c\<in>set tok. \<not> isLineTerminator c" by blast
    have "lineOf (tok @ CHR 0x22 # post) = tok @ CHR 0x22 # lineOf post"
      using tok by (simp add: lineOf_def takeWhile_append2 isLineTerminator_def)
    then have "quotedAt b (length pre)"
      by (simp add: quotedAt_def b)
    moreover have "length pre < length b" by (simp add: b)
    ultimately have "find (quotedAt b) [0..<length b] \<noteq> None"
      by (auto simp: find_None_iff)
    with n show False
      by (simp add: regexpExecVersion_quotedToken quotedToken_def split: option.splits)
  qed
next
  assume n: "\<not> (\<exists>pre tok post. b = pre @ ''version \"'' @ tok @ CHR 0x22 # post \<and>
           (\<forall>c\<in>set tok. \<not> isLineTerminator c))"
  show "regexpExecVersion b = None"
  proof (rule ccontr)
    assume "regexpExecVersion b \<noteq> None"
    then obtain i where "find (quotedAt b) [0..<length b] = Some i"
      by (auto simp: regexpExecVersion_quotedToken quotedToken_def split: option.splits)
    then have q: "quotedAt b i" by (auto simp: find_Some_iff)
    define rest where "rest = drop 9 (drop i b)"
    from q have p: "prefix ''version \"'' (drop i b)" and l: "CHR 0x22 \<in> set (lineOf rest)"
      by (simp_all add: quotedAt_def rest_def)
    from p obtain zs where zs: "drop i b = ''version \"'' @ zs"
      by (auto simp: prefix_def)
    then have "drop 9 (drop i b) = zs" by (simp del: drop_drop)
    with zs have d: "drop i b = ''version \"'' @ rest"
      by (simp only: rest_def)
    from l obtain tok l' where s: "lineOf rest = tok @ CHR 0x22 # l'"
      by (auto dest: split_list)
    have "rest = lineOf rest @ dropWhile (\<lambda>c. \<not> isLineTerminator c) rest"
      by (simp add: lineOf_def)
    then have r: "rest = tok @ CHR 0x22 # (l' @ dropWhile (\<lambda>c. \<not> isLineTerminator c) rest)"
      using s by simp
    have "set tok \<subseteq> set (lineOf rest)" using s by auto
    then have t: "\<forall>c\<in>set tok. \<not> isLineTerminator c"
      unfolding lineOf_def by (auto dest: set_takeWhileD)
    have "b = take i b @ drop i b" by simp
    then have "b = take i b @ ''version \"'' @ tok @
                 CHR 0x22 # (l' @ dropWhile (\<lambda>c. \<not> isLineTerminator c) rest)"
      using d r by metis
    with t n show False by blast
  qed
qed

lemma parseMajorVersion_no_match:
  assumes "\<not> (\<exists>pre tok post. b = pre @ ''version \"'' @ tok @ CHR 0x22 # post \<and>
           (\<forall>c\<in>set tok. \<not> isLineTerminator c))"
  shows "parseMajorVersion b = 0"
  using assms regexpExecVersion_None_iff[of b] by (simp add: parseMajorVersion_def)

subsection \<open>C1: the version-parsing policy\<close>




section \<open>Properties of discovery and validation\<close>

subsection \<open>One entry\<close>

lemma toLowerCase_Nil: "toLowerCase [] = []"
  by (simp add: toLowerCase_def)

lemma name_test:
  "(n \<noteq> [] \<and> toLowerCase n = ''bin'') = (toLowerCase n = ''bin'')"
  by (cases n) (simp_all add: toLowerCase_Nil)

lemma validateEntry_empty:
  assumes "isEmpty (path e)"
  shows "validateEntry w e =
           ([], Inr (e\<lparr>isValid := Some False,
                       hint := Some (notJdkHint @
                         (if toLowerCase (path_parse_name w []) = ''bin''
                          then removeBinHint else []))\<rparr>))"
proof -
  have c: "checkJdkInstallation w (path e) = ([], Inr False)"
    using assms by (auto simp: checkJdkInstallation_def isEmpty_def split: option.splits)
  have o: "orEmpty (path e) = []"
    using assms by (auto simp: orEmpty_def isEmpty_def split: option.splits)
  show ?thesis
    unfolding validateEntry_def c o await_def name_test
    by (simp add: Let_def)
qed

lemma validateEntry_no_javac:
  assumes "path e = Some p" and "p \<noteq> []" and "\<not> pathExists w (javacFile w p)"
  shows "validateEntry w e =
           ([PathExists (javacFile w p)],
            Inr (e\<lparr>isValid := Some False,
                    hint := Some (notJdkHint @
                      (if toLowerCase (path_parse_name w p) = ''bin''
                       then removeBinHint else []))\<rparr>))"
proof -
  have c: "checkJdkInstallation w (path e) = ([PathExists (javacFile w p)], Inr False)"
    using assms by (simp add: checkJdkInstallation_def Let_def)
  have o: "orEmpty (path e) = p"
    using assms by (simp add: orEmpty_def)
  show ?thesis
    unfolding validateEntry_def c o await_def name_test
    by (simp add: Let_def)
qed

lemma validateEntry_javac:
  assumes "path e = Some p" and "p \<noteq> []" and "pathExists w (javacFile w p)"
  shows "validateEntry w e =
           ([PathExists (javacFile w p), ExecFile (javaFile w p) [''-version'']],
            Inr (if detectedVersion w p < 11
                 then e\<lparr>isValid := Some False, hint := Some (tooLowHint (detectedVersion w p))\<rparr>
                 else e\<lparr>isValid := Some True\<rparr>))"
proof -
  have c: "checkJdkInstallation w (path e) = ([PathExists (javacFile w p)], Inr True)"
    using assms by (simp add: checkJdkInstallation_def Let_def)
  have g: "getJavaVersion w (path e) =
             ([ExecFile (javaFile w p) [''-version'']], Inr (detectedVersion w p))"
    using assms by (simp add: getJavaVersion_def Let_def)
  show ?thesis
    unfolding validateEntry_def c g await_def
    by (simp add: MIN_JDK_VERSION_def)
qed

text \<open>The three cases cover every entry.\<close>

lemma entry_cases:
  "isEmpty (path e) \<or>
   (\<exists>p. path e = Some p \<and> p \<noteq> [] \<and> \<not> pathExists w (javacFile w p)) \<or>
   (\<exists>p. path e = Some p \<and> p \<noteq> [] \<and> pathExists w (javacFile w p))"
  by (cases "path e") (auto simp: isEmpty_def)

lemma validateEntry_resolves: "snd (validateEntry w e) = Inr (validated w e)"
  using entry_cases[of e w]
  by (auto simp: validateEntry_empty validateEntry_no_javac validateEntry_javac)

lemma validateEntry_pair: "validateEntry w e = (fst (validateEntry w e), Inr (validated w e))"
  using validateEntry_resolves[of w e] by (cases "validateEntry w e") simp

text \<open>Validation assigns \<open>isValid\<close> and \<open>hint\<close> and nothing else.\<close>

lemma validated_fields:
  "name (validated w e) = name e \<and> path (validated w e) = path e \<and>
   type (validated w e) = type e \<and> actionUri (validated w e) = actionUri e"
  using entry_cases[of e w]
  by (auto simp: validateEntry_empty validateEntry_no_javac validateEntry_javac)

lemma validated_definite:
  assumes "hint e = None"
  shows "(isValid (validated w e) = Some True \<and> hint (validated w e) = None) \<or>
         (isValid (validated w e) = Some False \<and> hint (validated w e) \<noteq> None)"
  using entry_cases[of e w] assms
  by (auto simp: validateEntry_empty validateEntry_no_javac validateEntry_javac)

subsection \<open>Enumeration\<close>

lemma candidates_eq:
  "candidates w =
     [\<lparr>name = ''java.home'', path = getConfiguration w ''java.home'', type = UserSetting,
       actionUri = Some ''command:workbench.action.openSettings?%22java.home%22'',
       isValid = None, hint = None\<rparr>,
      \<lparr>name = ''JDK_HOME'', path = env w ''JDK_HOME'', type = EnvironmentVariable,
       actionUri = None, isValid = None, hint = None\<rparr>,
      \<lparr>name = ''JAVA_HOME'', path = env w ''JAVA_HOME'', type = EnvironmentVariable,
       actionUri = None, isValid = None, hint = None\<rparr>]
     @ (case findJavaHome w of
          Inl e \<Rightarrow> []
        | Inr home \<Rightarrow> [\<lparr>name = ''Other'', path = Some home, type = Other,
                        actionUri = None, isValid = None, hint = None\<rparr>])"
  by (simp add: candidates_def findPossibleJdkInstallations_def newEntry_def split: sum.splits)

lemma upt_3: "[n..<n + 3] = [n, Suc n, Suc (Suc n)]"
  by (simp add: upt_rec)

lemma upt_4: "[n..<n + 4] = [n, Suc n, Suc (Suc n), Suc (Suc (Suc n))]"
  by (simp add: upt_rec)

lemma findPossibleJdkInstallations_alloc:
  "findPossibleJdkInstallations w h =
     (Inr [length h..<length h + length (candidates w)], h @ candidates w)"
proof (cases "findJavaHome w")
  case (Inl e)
  then show ?thesis
    by (simp add: candidates_eq findPossibleJdkInstallations_def newEntry_def upt_3)
next
  case (Inr home)
  then show ?thesis
    by (simp add: candidates_eq findPossibleJdkInstallations_def newEntry_def upt_4)
qed

lemma candidates_unset:
  "e \<in> set (candidates w) \<Longrightarrow> isValid e = None \<and> hint e = None"
  by (auto simp: candidates_eq split: sum.splits)

subsection \<open>Validation of the enumerated entries\<close>

lemma validateEntryAt_eq:
  "validateEntryAt w a h = ((fst (validateEntry w (h ! a)), Inr a), h[a := validated w (h ! a)])"
  unfolding validateEntryAt_def
  by (subst validateEntry_pair) simp

lemma promiseAllMap_validate:
  assumes "distinct as" and "\<forall>a\<in>set as. a < length h"
  shows "promiseAllMap (validateEntryAt w) as h =
           ((concat (map (\<lambda>a. fst (validateEntry w (h ! a))) as), Inr as),
            map (\<lambda>i. if i \<in> set as then validated w (h ! i) else h ! i) [0..<length h])"
  using assms
proof (induction as arbitrary: h)
  case Nil
  show ?case by (simp add: map_nth)
next
  case (Cons a as)
  let ?h1 = "h[a := validated w (h ! a)]"
  have a: "a < length h" "a \<notin> set as" "distinct as" using Cons.prems by auto
  have "\<forall>b\<in>set as. b < length ?h1" using Cons.prems by simp
  from Cons.IH[OF a(3) this]
  have ih: "promiseAllMap (validateEntryAt w) as ?h1 =
      ((concat (map (\<lambda>b. fst (validateEntry w (?h1 ! b))) as), Inr as),
       map (\<lambda>i. if i \<in> set as then validated w (?h1 ! i) else ?h1 ! i) [0..<length ?h1])" .
  have fx: "map (\<lambda>b. fst (validateEntry w (?h1 ! b))) as =
            map (\<lambda>b. fst (validateEntry w (h ! b))) as"
    using a(2) by (intro map_cong refl) (metis nth_list_update_neq)
  have hp: "map (\<lambda>i. if i \<in> set as then validated w (?h1 ! i) else ?h1 ! i) [0..<length ?h1] =
            map (\<lambda>i. if i \<in> set (a # as) then validated w (h ! i) else h ! i) [0..<length h]"
    using a(1,2) by (auto simp: nth_list_update)
  have "promiseAllMap (validateEntryAt w) (a # as) h =
          (case promiseAllMap (validateEntryAt w) as ?h1 of
             ((fxs, rs), h2) \<Rightarrow>
               ((fst (validateEntry w (h ! a)) @ fxs,
                 (case rs of Inl e \<Rightarrow> Inl e | Inr ys \<Rightarrow> Inr (a # ys))), h2))"
    by (subst promiseAllMap.simps, subst validateEntryAt_eq) (simp only: prod.case sum.case)
  then show ?case
    by (simp only: ih fx hp prod.case sum.case list.map concat.simps)
qed

lemma findJavaRuntimeEntries_eq:
  "findJavaRuntimeEntries w h =
     ((concat (map (\<lambda>e. fst (validateEntry w e)) (candidates w)),
       Inr [length h..<length h + length (candidates w)]),
      h @ map (validated w) (candidates w))"
proof -
  let ?n = "length h" and ?c = "candidates w"
  let ?as = "[?n..<?n + length ?c]"
  have d: "distinct ?as" "\<forall>a\<in>set ?as. a < length (h @ ?c)" by auto
  have fx: "map (\<lambda>a. fst (validateEntry w ((h @ ?c) ! a))) ?as =
            map (\<lambda>e. fst (validateEntry w e)) ?c"
    by (intro nth_equalityI) (auto simp: nth_append)
  have hp: "map (\<lambda>i. if i \<in> set ?as then validated w ((h @ ?c) ! i) else (h @ ?c) ! i)
              [0..<length (h @ ?c)] = h @ map (validated w) ?c"
    by (intro nth_equalityI) (auto simp: nth_append)
  show ?thesis
    unfolding findJavaRuntimeEntries_def findPossibleJdkInstallations_alloc
    by (simp only: prod.case sum.case promiseAllMap_validate[OF d] fx hp)
qed

lemma map_nth_fresh: "map ((!) (h @ c)) [length h..<length h + length c] = c"
  by (intro nth_equalityI) (auto simp: nth_append)

lemma nth_fresh:
  "a \<in> set [length h..<length h + length c] \<Longrightarrow> (h @ c) ! a \<in> set c"
  by (auto simp: nth_append)

subsection \<open>C5: the order of the enumeration\<close>

text \<open>
  C5. For every world and store, \<open>findPossibleJdkInstallations\<close> resolves (it never
  rejects) to the entries \<open>java.home\<close> (the user setting), \<open>JDK_HOME\<close>, \<open>JAVA_HOME\<close> (the
  environment variables) and \<open>Other\<close> (the automatic detection), in this order; the
  fourth is left out when the detection reports an error, which gives three entries and
  not four; the path of each entry is what its source holds, \<open>undefined\<close> when the source
  is absent.
\<close>

theorem findPossibleJdkInstallations_order:
  "\<exists>entries h'.
     findPossibleJdkInstallations w h = (Inr entries, h') \<and>
     map ((!) h') entries =
       [\<lparr>name = ''java.home'', path = getConfiguration w ''java.home'', type = UserSetting,
         actionUri = Some ''command:workbench.action.openSettings?%22java.home%22'',
         isValid = None, hint = None\<rparr>,
        \<lparr>name = ''JDK_HOME'', path = env w ''JDK_HOME'', type = EnvironmentVariable,
         actionUri = None, isValid = None, hint = None\<rparr>,
        \<lparr>name = ''JAVA_HOME'', path = env w ''JAVA_HOME'', type = EnvironmentVariable,
         actionUri = None, isValid = None, hint = None\<rparr>]
       @ (case findJavaHome w of
            Inl e \<Rightarrow> []
          | Inr home \<Rightarrow> [\<lparr>name = ''Other'', path = Some home, type = Other,
                          actionUri = None, isValid = None, hint = None\<rparr>]) \<and>
     length entries = (case findJavaHome w of Inl e \<Rightarrow> 3 | Inr home \<Rightarrow> 4)"
proof -
  let ?entries = "[length h..<length h + length (candidates w)]"
  have run: "findPossibleJdkInstallations w h = (Inr ?entries, h @ candidates w)"
    by (rule findPossibleJdkInstallations_alloc)
  have objs: "map ((!) (h @ candidates w)) ?entries = candidates w"
    by (rule map_nth_fresh)
  have len: "length ?entries = (case findJavaHome w of Inl e \<Rightarrow> 3 | Inr home \<Rightarrow> 4)"
    by (simp add: candidates_eq split: sum.splits)
  from run objs len show ?thesis
    unfolding candidates_eq[symmetric] by blast
qed

theorem findPossibleJdkInstallations_order_witness:
  "(case findPossibleJdkInstallations linuxWorld [] of
      (r, h') \<Rightarrow> map (\<lambda>a. (name (h' ! a), path (h' ! a))) (projr r)) =
     [(''java.home'', None), (''JDK_HOME'', None),
      (''JAVA_HOME'', Some ''/usr/lib/jvm/jdk-17'')] \<and>
   (case findPossibleJdkInstallations (linuxWorld\<lparr>findJavaHome := Inr ''/opt/jdk8''\<rparr>) [] of
      (r, h') \<Rightarrow> map (\<lambda>a. (name (h' ! a), path (h' ! a))) (projr r)) =
     [(''java.home'', None), (''JDK_HOME'', None),
      (''JAVA_HOME'', Some ''/usr/lib/jvm/jdk-17''), (''Other'', Some ''/opt/jdk8'')]"
proof -
  have m: "map (\<lambda>a. (name (h' ! a), path (h' ! a))) entries =
           map (\<lambda>e. (name e, path e)) (map ((!) h') entries)" for h' :: heap and entries
    by simp
  from findPossibleJdkInstallations_order[of linuxWorld "[]"]
  obtain entries h' where
    r: "findPossibleJdkInstallations linuxWorld [] = (Inr entries, h')"
    and o: "map (\<lambda>e. (name e, path e)) (map ((!) h') entries) =
             [(''java.home'', None), (''JDK_HOME'', None),
              (''JAVA_HOME'', Some ''/usr/lib/jvm/jdk-17'')]"
    by (auto simp: linuxWorld_def)
  from findPossibleJdkInstallations_order[of "linuxWorld\<lparr>findJavaHome := Inr ''/opt/jdk8''\<rparr>" "[]"]
  obtain entries4 h4 where
    r4: "findPossibleJdkInstallations (linuxWorld\<lparr>findJavaHome := Inr ''/opt/jdk8''\<rparr>) []
           = (Inr entries4, h4)"
    and o4: "map (\<lambda>e. (name e, path e)) (map ((!) h4) entries4) =
             [(''java.home'', None), (''JDK_HOME'', None),
              (''JAVA_HOME'', Some ''/usr/lib/jvm/jdk-17''), (''Other'', Some ''/opt/jdk8'')]"
    by (auto simp: linuxWorld_def)
  show ?thesis
    unfolding r r4 prod.case sum.sel m o o4 by simp
qed

subsection \<open>C8: the fields that validation sets\<close>

text \<open>
  C8. An entry that the enumeration produced has neither \<open>isValid\<close> nor \<open>hint\<close>. After
  \<open>findJavaRuntimeEntries\<close> every entry returned is either valid without a hint or
  invalid with one, and its other fields are as enumerated. Each call creates its
  entries: the references returned are the addresses above the store it was given, no
  object of that store has changed, and the objects created are the same whatever the
  store held before, so nothing is kept from an earlier call.
\<close>

theorem entries_set_by_validation_only:
  "\<exists>entries0 h0 fx entries h'.
     findPossibleJdkInstallations w h = (Inr entries0, h0) \<and>
     (\<forall>a\<in>set entries0. isValid (h0 ! a) = None \<and> hint (h0 ! a) = None) \<and>
     findJavaRuntimeEntries w h = ((fx, Inr entries), h') \<and>
     (\<forall>a\<in>set entries.
        (isValid (h' ! a) = Some True \<and> hint (h' ! a) = None) \<or>
        (isValid (h' ! a) = Some False \<and> hint (h' ! a) \<noteq> None)) \<and>
     entries = entries0 \<and>
     (\<forall>a\<in>set entries.
        name (h' ! a) = name (h0 ! a) \<and> path (h' ! a) = path (h0 ! a) \<and>
        type (h' ! a) = type (h0 ! a) \<and> actionUri (h' ! a) = actionUri (h0 ! a)) \<and>
     entries = [length h..<length h'] \<and>
     take (length h) h' = h \<and>
     (\<forall>h2. drop (length h2) (snd (findJavaRuntimeEntries w h2)) = drop (length h) h')"
proof -
  let ?c = "candidates w"
  let ?as = "[length h..<length h + length ?c]"
  let ?h0 = "h @ ?c" and ?h' = "h @ map (validated w) ?c"
  let ?fx = "concat (map (\<lambda>e. fst (validateEntry w e)) ?c)"
  have enum: "findPossibleJdkInstallations w h = (Inr ?as, ?h0)"
    by (rule findPossibleJdkInstallations_alloc)
  have run: "findJavaRuntimeEntries w h = ((?fx, Inr ?as), ?h')"
    by (rule findJavaRuntimeEntries_eq)
  have at0: "?h0 ! a = ?c ! (a - length h)" and at': "?h' ! a = validated w (?c ! (a - length h))"
    and inc: "?c ! (a - length h) \<in> set ?c" if "a \<in> set ?as" for a
    using that by (auto simp: nth_append)
  have unset: "\<forall>a\<in>set ?as. isValid (?h0 ! a) = None \<and> hint (?h0 ! a) = None"
    using at0 inc candidates_unset by metis
  have definite: "\<forall>a\<in>set ?as.
        (isValid (?h' ! a) = Some True \<and> hint (?h' ! a) = None) \<or>
        (isValid (?h' ! a) = Some False \<and> hint (?h' ! a) \<noteq> None)"
  proof
    fix a assume a: "a \<in> set ?as"
    have "hint (?c ! (a - length h)) = None"
      using candidates_unset inc[OF a] by blast
    from validated_definite[OF this, of w] show
      "(isValid (?h' ! a) = Some True \<and> hint (?h' ! a) = None) \<or>
       (isValid (?h' ! a) = Some False \<and> hint (?h' ! a) \<noteq> None)"
      unfolding at'[OF a] .
  qed
  have kept: "\<forall>a\<in>set ?as.
        name (?h' ! a) = name (?h0 ! a) \<and> path (?h' ! a) = path (?h0 ! a) \<and>
        type (?h' ! a) = type (?h0 ! a) \<and> actionUri (?h' ! a) = actionUri (?h0 ! a)"
  proof
    fix a assume a: "a \<in> set ?as"
    show "name (?h' ! a) = name (?h0 ! a) \<and> path (?h' ! a) = path (?h0 ! a) \<and>
        type (?h' ! a) = type (?h0 ! a) \<and> actionUri (?h' ! a) = actionUri (?h0 ! a)"
      unfolding at'[OF a] at0[OF a] by (rule validated_fields)
  qed
  have fresh: "?as = [length h..<length ?h']" "take (length h) ?h' = h"
    by simp_all
  have same: "\<forall>h2. drop (length h2) (snd (findJavaRuntimeEntries w h2)) = drop (length h) ?h'"
    by (simp add: findJavaRuntimeEntries_eq)
  from enum unset run definite kept fresh same show ?thesis
    by blast
qed

text \<open>
  Two calls one after the other on the Linux host: the second returns three new
  references and leaves the three entries of the first as they were.
\<close>

theorem entries_set_by_validation_only_witness:
  "map (\<lambda>e. (isValid e, hint e)) (snd (findPossibleJdkInstallations linuxWorld [])) =
     [(None, None), (None, None), (None, None)] \<and>
   map (\<lambda>e. (isValid e, hint e)) (snd (findJavaRuntimeEntries linuxWorld [])) =
     [(Some False, Some notJdkHint), (Some False, Some notJdkHint), (Some True, None)] \<and>
   snd (fst (findJavaRuntimeEntries linuxWorld (snd (findJavaRuntimeEntries linuxWorld [])))) =
     Inr [3, 4, 5] \<and>
   take 3 (snd (findJavaRuntimeEntries linuxWorld (snd (findJavaRuntimeEntries linuxWorld [])))) =
     snd (findJavaRuntimeEntries linuxWorld [])"
proof -
  let ?h1 = "snd (findJavaRuntimeEntries linuxWorld [])"
  have l1: "length ?h1 = 3"
    by code_simp
  have l2: "length (snd (findJavaRuntimeEntries linuxWorld ?h1)) = 6"
    by code_simp
  have u: "map (\<lambda>e. (isValid e, hint e)) (snd (findPossibleJdkInstallations linuxWorld [])) =
     [(None, None), (None, None), (None, None)]"
    by code_simp
  have v: "map (\<lambda>e. (isValid e, hint e)) ?h1 =
     [(Some False, Some notJdkHint), (Some False, Some notJdkHint), (Some True, None)]"
    by code_simp
  from entries_set_by_validation_only[of linuxWorld ?h1]
  obtain fx entries h' where
    r: "findJavaRuntimeEntries linuxWorld ?h1 = ((fx, Inr entries), h')"
    and f: "entries = [length ?h1..<length h']" "take (length ?h1) h' = ?h1"
    by blast
  from r l2 have "length h' = 6" by simp
  with f l1 have "entries = [3, 4, 5]" "take 3 h' = ?h1"
    by (simp_all add: upt_rec)
  with r u v show ?thesis by simp
qed

subsection \<open>C2: validateJavaRuntime\<close>

lemma findIndex_first:
  assumes "\<forall>x\<in>set pre. \<not> P x" and "P e"
  shows "findIndex (pre @ e # post) P = int (length pre)"
proof -
  define xs where "xs = pre @ e # post"
  have n: "length pre < length xs" and at: "xs ! length pre = e"
    and before: "\<And>j. j < length pre \<Longrightarrow> xs ! j = pre ! j"
    by (simp_all add: xs_def nth_append)
  have "find (\<lambda>i. P (xs ! i)) [0..<length xs] = Some (length pre)"
    unfolding find_Some_iff
  proof (intro exI[of _ "length pre"] conjI allI impI)
    show "length pre < length [0..<length xs]" using n by simp
    show "P (xs ! ([0..<length xs] ! length pre))" using assms(2) n at by simp
    show "length pre = [0..<length xs] ! length pre" using n by simp
    fix j assume j: "j < length pre"
    then have "[0..<length xs] ! j = j" using n by simp
    then show "\<not> P (xs ! ([0..<length xs] ! j))"
      using assms(1) j before by simp
  qed
  then show ?thesis by (simp add: findIndex_def xs_def)
qed

lemma findIndex_none:
  assumes "\<forall>x\<in>set es. \<not> P x"
  shows "findIndex es P = - 1"
proof -
  have "find (\<lambda>i. P (es ! i)) [0..<length es] = None"
    using assms by (simp add: find_None_iff)
  then show ?thesis by (simp add: findIndex_def)
qed

lemma currentValidity_first:
  assumes "\<forall>x\<in>set pre. isEmpty (path x)" and "\<not> isEmpty (path e)"
  shows "currentValidity (pre @ e # post) = isValid e"
proof -
  have "findIndex (pre @ e # post) (\<lambda>entry. \<not> isEmpty (path entry)) = int (length pre)"
    using assms by (intro findIndex_first) auto
  then show ?thesis by (simp add: currentValidity_def)
qed

lemma currentValidity_all_empty:
  assumes "\<forall>x\<in>set es. isEmpty (path x)"
  shows "currentValidity es = Some (\<exists>x\<in>set es. isValid x = Some True)"
proof -
  have "findIndex es (\<lambda>entry. \<not> isEmpty (path entry)) = - 1"
    using assms by (intro findIndex_none) auto
  then show ?thesis by (simp add: currentValidity_def some_def list_ex_iff)
qed

lemma validated_empty_invalid:
  "isEmpty (path e) \<Longrightarrow> isValid (validated w e) = Some False"
  by (simp add: validateEntry_empty)

text \<open>
  C2. On every list of entries the value is \<open>isValid\<close> of the first entry whose path
  is not empty, whatever follows it; when every path is empty it is whether some entry is
  valid. \<open>validateJavaRuntime\<close> computes it on the entries that \<open>findJavaRuntimeEntries\<close>
  returns, and there, when every path is empty, it is false.
\<close>

theorem validateJavaRuntime_first_nonempty:
  "((\<forall>x\<in>set pre. isEmpty (path x)) \<and> \<not> isEmpty (path e)
      \<longrightarrow> currentValidity (pre @ e # post) = isValid e) \<and>
   ((\<forall>x\<in>set es. isEmpty (path x))
      \<longrightarrow> currentValidity es = Some (\<exists>x\<in>set es. isValid x = Some True)) \<and>
   (\<exists>fx entries h'.
      findJavaRuntimeEntries w h = ((fx, Inr entries), h') \<and>
      validateJavaRuntime w h = ((fx, Inr (currentValidity (map ((!) h') entries))), h') \<and>
      ((\<forall>a\<in>set entries. isEmpty (path (h' ! a)))
         \<longrightarrow> currentValidity (map ((!) h') entries) = Some False))"
proof (intro conjI impI)
  assume "(\<forall>x\<in>set pre. isEmpty (path x)) \<and> \<not> isEmpty (path e)"
  then show "currentValidity (pre @ e # post) = isValid e"
    by (simp add: currentValidity_first)
next
  assume "\<forall>x\<in>set es. isEmpty (path x)"
  then show "currentValidity es = Some (\<exists>x\<in>set es. isValid x = Some True)"
    by (rule currentValidity_all_empty)
next
  let ?c = "candidates w"
  let ?as = "[length h..<length h + length ?c]"
  let ?h' = "h @ map (validated w) ?c"
  let ?fx = "concat (map (\<lambda>e. fst (validateEntry w e)) ?c)"
  have run: "findJavaRuntimeEntries w h = ((?fx, Inr ?as), ?h')"
    by (rule findJavaRuntimeEntries_eq)
  then have val: "validateJavaRuntime w h =
      ((?fx, Inr (currentValidity (map ((!) ?h') ?as))), ?h')"
    by (simp add: validateJavaRuntime_def)
  have objs: "map ((!) ?h') ?as = map (validated w) ?c"
    using map_nth_fresh[of h "map (validated w) ?c"] by simp
  have "currentValidity (map ((!) ?h') ?as) = Some False"
    if empty: "\<forall>a\<in>set ?as. isEmpty (path (?h' ! a))"
  proof -
    have "\<forall>x\<in>set (map ((!) ?h') ?as). isEmpty (path x)"
      using empty by simp
    then have e: "\<forall>x\<in>set (map (validated w) ?c). isEmpty (path x)"
      unfolding objs .
    have "\<forall>x\<in>set (map (validated w) ?c). isValid x \<noteq> Some True"
    proof
      fix x assume x: "x \<in> set (map (validated w) ?c)"
      then obtain c where c: "c \<in> set ?c" "x = validated w c" by auto
      with e x have "isEmpty (path c)"
        using validated_fields[of w c] by metis
      then show "isValid x \<noteq> Some True"
        using c(2) by (simp add: validated_empty_invalid)
    qed
    with currentValidity_all_empty[OF e] show ?thesis
      unfolding objs by simp
  qed
  with run val show "\<exists>fx entries h'.
      findJavaRuntimeEntries w h = ((fx, Inr entries), h') \<and>
      validateJavaRuntime w h = ((fx, Inr (currentValidity (map ((!) h') entries))), h') \<and>
      ((\<forall>a\<in>set entries. isEmpty (path (h' ! a)))
         \<longrightarrow> currentValidity (map ((!) h') entries) = Some False)"
    by blast
qed

text \<open>
  On the Linux host the first path that is not empty is \<open>JAVA_HOME\<close>, a JDK 17: the
  value is true. With \<open>java.home\<close> set to the JDK 8 it is false, although \<open>JAVA_HOME\<close>
  after it is valid. With no source set it is false.
\<close>

theorem validateJavaRuntime_first_nonempty_witness:
  "snd (fst (validateJavaRuntime linuxWorld [])) = Inr (Some True) \<and>
   snd (fst (validateJavaRuntime (linuxWorld\<lparr>getConfiguration := (\<lambda>k. Some ''/opt/jdk8'')\<rparr>) []))
     = Inr (Some False) \<and>
   snd (fst (validateJavaRuntime (linuxWorld\<lparr>env := (\<lambda>k. None)\<rparr>) [])) = Inr (Some False)"
proof -
  let ?w2 = "linuxWorld\<lparr>getConfiguration := (\<lambda>k. Some ''/opt/jdk8'')\<rparr>"
  let ?w3 = "linuxWorld\<lparr>env := (\<lambda>k. None)\<rparr>"
  let ?obj = "\<lambda>w. map ((!) (snd (findJavaRuntimeEntries w []))) (projr (snd (fst (findJavaRuntimeEntries w []))))"
  let ?e1 = "\<lparr>name = ''java.home'', path = None, type = UserSetting,
      actionUri = Some ''command:workbench.action.openSettings?%22java.home%22'',
      isValid = Some False, hint = Some notJdkHint\<rparr>"
  let ?e2 = "\<lparr>name = ''JDK_HOME'', path = None, type = EnvironmentVariable,
      actionUri = None, isValid = Some False, hint = Some notJdkHint\<rparr>"
  let ?e3 = "\<lparr>name = ''JAVA_HOME'', path = Some ''/usr/lib/jvm/jdk-17'',
      type = EnvironmentVariable, actionUri = None, isValid = Some True, hint = None\<rparr>"
  let ?e3' = "\<lparr>name = ''JAVA_HOME'', path = None,
      type = EnvironmentVariable, actionUri = None, isValid = Some False, hint = Some notJdkHint\<rparr>"
  let ?e8 = "\<lparr>name = ''java.home'', path = Some ''/opt/jdk8'', type = UserSetting,
      actionUri = Some ''command:workbench.action.openSettings?%22java.home%22'',
      isValid = Some False, hint = Some (tooLowHint 8)\<rparr>"
  have o1: "?obj linuxWorld = [?e1, ?e2] @ ?e3 # []" by code_simp
  have o2: "?obj ?w2 = [] @ ?e8 # [?e2, ?e3]" by code_simp
  have o3: "?obj ?w3 = [?e1, ?e2, ?e3']" by code_simp
  note pol = validateJavaRuntime_first_nonempty
  have r: "snd (fst (validateJavaRuntime w [])) = Inr (currentValidity (?obj w))" for w
    using pol[where w = w and h = "[]" and pre = "[]" and e = ?e3 and post = "[]" and es = "[]"]
    by auto
  have c1: "currentValidity ([?e1, ?e2] @ ?e3 # []) = Some True"
    using pol[where pre = "[?e1, ?e2]" and e = ?e3 and post = "[]" and es = "[]"
        and w = linuxWorld and h = "[]"]
    by (simp add: isEmpty_def)
  have c2: "currentValidity ([] @ ?e8 # [?e2, ?e3]) = Some False"
    using pol[where pre = "[]" and e = ?e8 and post = "[?e2, ?e3]" and es = "[]"
        and w = linuxWorld and h = "[]"]
    by (simp add: isEmpty_def)
  have c3: "currentValidity [?e1, ?e2, ?e3'] = Some False"
    using pol[where es = "[?e1, ?e2, ?e3']" and pre = "[]" and e = ?e3 and post = "[]"
        and w = linuxWorld and h = "[]"]
    by (simp add: isEmpty_def)
  show ?thesis
    unfolding r o1 o2 o3 c1 c2 c3 by simp
qed

subsection \<open>C3: the minimum version\<close>

lemma tooLowHint_mentions:
  "sublist ''11'' (tooLowHint v) \<and> sublist (numberToString v) (tooLowHint v)"
proof
  have "tooLowHint v =
          ''JDK '' @ ''11'' @ (''+ is required while the path is pointing to version ''
                               @ numberToString v)"
    by simp
  then show "sublist ''11'' (tooLowHint v)"
    by (simp only: sublist_appendI)
  have "tooLowHint v =
          ''JDK 11+ is required while the path is pointing to version '' @ numberToString v @ []"
    by simp
  then show "sublist (numberToString v) (tooLowHint v)"
    by (simp only: sublist_appendI)
qed

text \<open>
  C3. Every entry that \<open>findJavaRuntimeEntries\<close> returns and whose compiler binary exists
  is invalid when the version extracted is below the minimum, which is 11, with the hint
  that names 11 and the version in decimal digits; it is valid with no hint when the
  version is at least 11.
\<close>

theorem validator_version_gate:
  "MIN_JDK_VERSION = 11 \<and>
   (\<exists>fx entries h'.
     findJavaRuntimeEntries w h = ((fx, Inr entries), h') \<and>
     (\<forall>a\<in>set entries. \<forall>p.
        path (h' ! a) = Some p \<and> p \<noteq> [] \<and> pathExists w (javacFile w p) \<longrightarrow>
        (detectedVersion w p < MIN_JDK_VERSION \<longrightarrow>
           isValid (h' ! a) = Some False \<and>
           hint (h' ! a) = Some (tooLowHint (detectedVersion w p)) \<and>
           sublist ''11'' (tooLowHint (detectedVersion w p)) \<and>
           sublist (numberToString (detectedVersion w p)) (tooLowHint (detectedVersion w p))) \<and>
        (MIN_JDK_VERSION \<le> detectedVersion w p \<longrightarrow>
           isValid (h' ! a) = Some True \<and> hint (h' ! a) = None)))"
proof (intro conjI)
  show "MIN_JDK_VERSION = 11" by (simp add: MIN_JDK_VERSION_def)
next
  let ?c = "candidates w"
  let ?as = "[length h..<length h + length ?c]"
  let ?h' = "h @ map (validated w) ?c"
  let ?fx = "concat (map (\<lambda>e. fst (validateEntry w e)) ?c)"
  have run: "findJavaRuntimeEntries w h = ((?fx, Inr ?as), ?h')"
    by (rule findJavaRuntimeEntries_eq)
  have gate: "(detectedVersion w p < MIN_JDK_VERSION \<longrightarrow>
           isValid (?h' ! a) = Some False \<and>
           hint (?h' ! a) = Some (tooLowHint (detectedVersion w p)) \<and>
           sublist ''11'' (tooLowHint (detectedVersion w p)) \<and>
           sublist (numberToString (detectedVersion w p)) (tooLowHint (detectedVersion w p))) \<and>
        (MIN_JDK_VERSION \<le> detectedVersion w p \<longrightarrow>
           isValid (?h' ! a) = Some True \<and> hint (?h' ! a) = None)"
    if a: "a \<in> set ?as"
      and p: "path (?h' ! a) = Some p \<and> p \<noteq> [] \<and> pathExists w (javacFile w p)"
    for a p
  proof -
    define c where "c = ?c ! (a - length h)"
    have at: "?h' ! a = validated w c" and c: "c \<in> set ?c"
      using a by (auto simp: nth_append c_def)
    have nohint: "hint c = None"
      using candidates_unset[OF c] by simp
    have "path c = Some p"
      using p validated_fields[of w c] by (simp add: at)
    from validateEntry_javac[OF this] p
    have v: "validated w c =
        (if detectedVersion w p < 11
         then c\<lparr>isValid := Some False, hint := Some (tooLowHint (detectedVersion w p))\<rparr>
         else c\<lparr>isValid := Some True\<rparr>)"
      by simp
    show ?thesis
      unfolding at v MIN_JDK_VERSION_def
      using nohint tooLowHint_mentions[of "detectedVersion w p"] by simp
  qed
  with run show "\<exists>fx entries h'.
     findJavaRuntimeEntries w h = ((fx, Inr entries), h') \<and>
     (\<forall>a\<in>set entries. \<forall>p.
        path (h' ! a) = Some p \<and> p \<noteq> [] \<and> pathExists w (javacFile w p) \<longrightarrow>
        (detectedVersion w p < MIN_JDK_VERSION \<longrightarrow>
           isValid (h' ! a) = Some False \<and>
           hint (h' ! a) = Some (tooLowHint (detectedVersion w p)) \<and>
           sublist ''11'' (tooLowHint (detectedVersion w p)) \<and>
           sublist (numberToString (detectedVersion w p)) (tooLowHint (detectedVersion w p))) \<and>
        (MIN_JDK_VERSION \<le> detectedVersion w p \<longrightarrow>
           isValid (h' ! a) = Some True \<and> hint (h' ! a) = None))"
    by blast
qed

text \<open>
  With \<open>java.home\<close> set to the JDK 8 and \<open>JAVA_HOME\<close> to the JDK 17: the first entry is
  invalid with the hint for version 8, the third is valid and has no hint.
\<close>

theorem validator_version_gate_witness:
  "(case findJavaRuntimeEntries jdk8World [] of
      ((fx, r), h') \<Rightarrow> map (\<lambda>a. (isValid (h' ! a), hint (h' ! a))) (projr r)) =
     [(Some False, Some ''JDK 11+ is required while the path is pointing to version 8''),
      (Some False, Some notJdkHint),
      (Some True, None)]"
proof -
  from validator_version_gate[of jdk8World "[]"]
  obtain fx entries h' where
    r: "findJavaRuntimeEntries jdk8World [] = ((fx, Inr entries), h')"
    and g: "\<And>a p. a \<in> set entries \<Longrightarrow>
        path (h' ! a) = Some p \<and> p \<noteq> [] \<and> pathExists jdk8World (javacFile jdk8World p) \<Longrightarrow>
        (detectedVersion jdk8World p < MIN_JDK_VERSION \<longrightarrow>
           isValid (h' ! a) = Some False \<and>
           hint (h' ! a) = Some (tooLowHint (detectedVersion jdk8World p))) \<and>
        (MIN_JDK_VERSION \<le> detectedVersion jdk8World p \<longrightarrow>
           isValid (h' ! a) = Some True \<and> hint (h' ! a) = None)"
    by blast
  have e: "snd (fst (findJavaRuntimeEntries jdk8World [])) = Inr [0, 1, 2]"
    by code_simp
  have paths: "map path (snd (findJavaRuntimeEntries jdk8World [])) =
      [Some ''/opt/jdk8'', None, Some ''/usr/lib/jvm/jdk-17'']"
    by code_simp
  have second: "(\<lambda>e. (isValid e, hint e)) (snd (findJavaRuntimeEntries jdk8World []) ! 1) =
      (Some False, Some notJdkHint)"
    by code_simp
  have javac: "pathExists jdk8World (javacFile jdk8World ''/opt/jdk8'')"
    "pathExists jdk8World (javacFile jdk8World ''/usr/lib/jvm/jdk-17'')"
    by code_simp+
  have v8: "detectedVersion jdk8World ''/opt/jdk8'' = 8"
    and v17: "detectedVersion jdk8World ''/usr/lib/jvm/jdk-17'' = 17"
    by code_simp+
  have t8: "tooLowHint 8 = ''JDK 11+ is required while the path is pointing to version 8''"
    by code_simp
  from r e have en: "entries = [0, 1, 2]" by simp
  from r paths have p: "path (h' ! 0) = Some ''/opt/jdk8''"
    "path (h' ! 2) = Some ''/usr/lib/jvm/jdk-17''"
    by (simp_all add: list_eq_iff_nth_eq)
  have a0: "isValid (h' ! 0) = Some False \<and> hint (h' ! 0) = Some (tooLowHint 8)"
    using g[of 0 "''/opt/jdk8''"] en p(1) javac(1) v8 by (simp add: MIN_JDK_VERSION_def)
  have a2: "isValid (h' ! 2) = Some True \<and> hint (h' ! 2) = None"
    using g[of 2 "''/usr/lib/jvm/jdk-17''"] en p(2) javac(2) v17 by (simp add: MIN_JDK_VERSION_def)
  from second r have a1: "isValid (h' ! 1) = Some False \<and> hint (h' ! 1) = Some notJdkHint"
    by simp
  show ?thesis
    unfolding r prod.case sum.sel en using a0 a1 a2 t8 by simp
qed

subsection \<open>C4: entries that do not point to a JDK\<close>

lemma indexOf_0: "indexOf s p = 0 \<longleftrightarrow> prefix p s"
proof -
  have "firstOccurrence p s = Some 0 \<longleftrightarrow> occursAt p s 0"
    unfolding firstOccurrence_def find_upt_Suc
    by (simp add: option.map_sel split: if_splits)
  moreover have "indexOf s p = 0 \<longleftrightarrow> firstOccurrence p s = Some 0"
    by (simp add: indexOf_def split: option.splits)
  ultimately show ?thesis by (simp add: occursAt_def)
qed

lemma JAVAC_FILENAME_eq:
  "JAVAC_FILENAME w =
     path_join w ''bin'' (if prefix ''win'' (platform w) then ''javac.exe'' else ''javac'')"
  by (simp add: JAVAC_FILENAME_def isWindows_def indexOf_0)

text \<open>
  C4, as stated, appends the suggestion only when the final segment of the path is
  \<open>bin\<close>. With \<open>java.home\<close> set to \<open>/opt/jdk/bin.old\<close>, a directory without a compiler,
  the hint of the first entry carries the suggestion, and the final segment is
  \<open>bin.old\<close>: the program compares the name that \<open>path.parse\<close> gives, which is the
  segment without its extension.
\<close>

theorem bin_suggestion_counterexample:
  "hint (snd (findJavaRuntimeEntries binOldWorld []) ! 0) = Some (notJdkHint @ removeBinHint) \<and>
   path (snd (findJavaRuntimeEntries binOldWorld []) ! 0) = Some ''/opt/jdk/bin.old'' \<and>
   toLowerCase (posixBase ''/opt/jdk/bin.old'') = ''bin.old'' \<and>
   posixParseName ''/opt/jdk/bin.old'' = ''bin''"
  by code_simp

text \<open>
  C4, amended. An entry whose path is empty or absent is marked invalid with the generic
  hint, and no file system or process operation is performed (\<open>path.parse\<close> of the empty
  string has an empty name). An entry whose path is not empty and lacks the compiler
  binary, \<open>bin/javac\<close> and \<open>bin/javac.exe\<close> on Windows, is marked invalid with the same
  hint after the one check for that file, and the suggestion is appended if and only if
  the name that \<open>path.parse\<close> gives for the path, its final segment without the
  extension, is \<open>bin\<close> in any case.
\<close>

theorem validator_not_a_jdk:
  "(isEmpty (path e) \<and> path_parse_name w [] = [] \<longrightarrow>
      validateEntry w e = ([], Inr (e\<lparr>isValid := Some False, hint := Some notJdkHint\<rparr>))) \<and>
   (path e = Some p \<and> p \<noteq> [] \<and> \<not> pathExists w (javacFile w p) \<longrightarrow>
      validateEntry w e =
        ([PathExists (javacFile w p)],
         Inr (e\<lparr>isValid := Some False,
                 hint := Some (if toLowerCase (path_parse_name w p) = ''bin''
                               then notJdkHint @ removeBinHint else notJdkHint)\<rparr>))) \<and>
   javacFile w p =
     path_resolve w (expandTilde w p)
       (path_join w ''bin'' (if prefix ''win'' (platform w) then ''javac.exe'' else ''javac''))"
proof (intro conjI impI)
  assume a: "isEmpty (path e) \<and> path_parse_name w [] = []"
  then have "toLowerCase (path_parse_name w []) \<noteq> ''bin''"
    by (simp add: toLowerCase_Nil)
  with a show "validateEntry w e =
      ([], Inr (e\<lparr>isValid := Some False, hint := Some notJdkHint\<rparr>))"
    by (simp add: validateEntry_empty)
next
  assume a: "path e = Some p \<and> p \<noteq> [] \<and> \<not> pathExists w (javacFile w p)"
  then have "validateEntry w e =
           ([PathExists (javacFile w p)],
            Inr (e\<lparr>isValid := Some False,
                    hint := Some (notJdkHint @
                      (if toLowerCase (path_parse_name w p) = ''bin''
                       then removeBinHint else []))\<rparr>))"
    by (intro validateEntry_no_javac) simp_all
  then show "validateEntry w e =
        ([PathExists (javacFile w p)],
         Inr (e\<lparr>isValid := Some False,
                 hint := Some (if toLowerCase (path_parse_name w p) = ''bin''
                               then notJdkHint @ removeBinHint else notJdkHint)\<rparr>))"
    by (simp split: if_splits)
next
  show "javacFile w p =
     path_resolve w (expandTilde w p)
       (path_join w ''bin'' (if prefix ''win'' (platform w) then ''javac.exe'' else ''javac''))"
    by (simp only: JAVAC_FILENAME_eq)
qed

text \<open>
  On the Linux host: the entry of an unset source; \<open>/opt/jdk/bin\<close> and \<open>/opt/jdk/BIN/\<close>,
  which get the suggestion; \<open>/opt/jdk\<close>, which does not; and the file that is checked
  on Windows.
\<close>

theorem validator_not_a_jdk_witness:
  "validateEntry linuxWorld
     \<lparr>name = ''JDK_HOME'', path = None, type = EnvironmentVariable,
      actionUri = None, isValid = None, hint = None\<rparr> =
     ([], Inr \<lparr>name = ''JDK_HOME'', path = None, type = EnvironmentVariable,
               actionUri = None, isValid = Some False, hint = Some notJdkHint\<rparr>) \<and>
   validateEntry linuxWorld
     \<lparr>name = ''JDK_HOME'', path = Some ''/opt/jdk/bin'', type = EnvironmentVariable,
      actionUri = None, isValid = None, hint = None\<rparr> =
     ([PathExists ''/opt/jdk/bin/bin/javac''],
      Inr \<lparr>name = ''JDK_HOME'', path = Some ''/opt/jdk/bin'', type = EnvironmentVariable,
           actionUri = None, isValid = Some False,
           hint = Some (notJdkHint @ removeBinHint)\<rparr>) \<and>
   validateEntry linuxWorld
     \<lparr>name = ''JDK_HOME'', path = Some ''/opt/jdk/BIN/'', type = EnvironmentVariable,
      actionUri = None, isValid = None, hint = None\<rparr> =
     ([PathExists ''/opt/jdk/BIN//bin/javac''],
      Inr \<lparr>name = ''JDK_HOME'', path = Some ''/opt/jdk/BIN/'', type = EnvironmentVariable,
           actionUri = None, isValid = Some False,
           hint = Some (notJdkHint @ removeBinHint)\<rparr>) \<and>
   validateEntry linuxWorld
     \<lparr>name = ''JDK_HOME'', path = Some ''/opt/jdk'', type = EnvironmentVariable,
      actionUri = None, isValid = None, hint = None\<rparr> =
     ([PathExists ''/opt/jdk/bin/javac''],
      Inr \<lparr>name = ''JDK_HOME'', path = Some ''/opt/jdk'', type = EnvironmentVariable,
           actionUri = None, isValid = Some False, hint = Some notJdkHint\<rparr>) \<and>
   javacFile (linuxWorld\<lparr>platform := ''win32''\<rparr>) ''/opt/jdk'' = ''/opt/jdk/bin/javac.exe''"
proof -
  let ?e = "\<lambda>p. \<lparr>name = ''JDK_HOME'', path = p, type = EnvironmentVariable,
      actionUri = None, isValid = None, hint = None\<rparr>"
  note pol = validator_not_a_jdk[where w = linuxWorld]
  have n: "path_parse_name linuxWorld [] = []"
    "toLowerCase (path_parse_name linuxWorld ''/opt/jdk/bin'') = ''bin''"
    "toLowerCase (path_parse_name linuxWorld ''/opt/jdk/BIN/'') = ''bin''"
    "toLowerCase (path_parse_name linuxWorld ''/opt/jdk'') \<noteq> ''bin''"
    by code_simp+
  have x: "\<not> pathExists linuxWorld (javacFile linuxWorld ''/opt/jdk/bin'')"
    "\<not> pathExists linuxWorld (javacFile linuxWorld ''/opt/jdk/BIN/'')"
    "\<not> pathExists linuxWorld (javacFile linuxWorld ''/opt/jdk'')"
    by code_simp+
  have f: "javacFile linuxWorld ''/opt/jdk/bin'' = ''/opt/jdk/bin/bin/javac''"
    "javacFile linuxWorld ''/opt/jdk/BIN/'' = ''/opt/jdk/BIN//bin/javac''"
    "javacFile linuxWorld ''/opt/jdk'' = ''/opt/jdk/bin/javac''"
    by code_simp+
  have a: "validateEntry linuxWorld (?e None) =
      ([], Inr ((?e None)\<lparr>isValid := Some False, hint := Some notJdkHint\<rparr>))"
    using pol[where e = "?e None" and p = "[]"] n(1) by (simp add: isEmpty_def)
  have b: "validateEntry linuxWorld (?e (Some ''/opt/jdk/bin'')) =
      ([PathExists ''/opt/jdk/bin/bin/javac''],
       Inr ((?e (Some ''/opt/jdk/bin''))\<lparr>isValid := Some False,
              hint := Some (notJdkHint @ removeBinHint)\<rparr>))"
    using pol[where e = "?e (Some ''/opt/jdk/bin'')" and p = "''/opt/jdk/bin''"] n(2) x(1)
    unfolding f by simp
  have c: "validateEntry linuxWorld (?e (Some ''/opt/jdk/BIN/'')) =
      ([PathExists ''/opt/jdk/BIN//bin/javac''],
       Inr ((?e (Some ''/opt/jdk/BIN/''))\<lparr>isValid := Some False,
              hint := Some (notJdkHint @ removeBinHint)\<rparr>))"
    using pol[where e = "?e (Some ''/opt/jdk/BIN/'')" and p = "''/opt/jdk/BIN/''"] n(3) x(2)
    unfolding f by simp
  have d: "validateEntry linuxWorld (?e (Some ''/opt/jdk'')) =
      ([PathExists ''/opt/jdk/bin/javac''],
       Inr ((?e (Some ''/opt/jdk''))\<lparr>isValid := Some False, hint := Some notJdkHint\<rparr>))"
    using pol[where e = "?e (Some ''/opt/jdk'')" and p = "''/opt/jdk''"] n(4) x(3)
    unfolding f by simp
  have w: "javacFile (linuxWorld\<lparr>platform := ''win32''\<rparr>) ''/opt/jdk'' = ''/opt/jdk/bin/javac.exe''"
    using validator_not_a_jdk[where w = "linuxWorld\<lparr>platform := ''win32''\<rparr>"
        and p = "''/opt/jdk''" and e = "?e None"]
    by (simp add: linuxWorld_def)
  from a b c d w show ?thesis by simp
qed

subsection \<open>C6: failures on the validation path\<close>

lemma currentValidity_definite:
  assumes "\<forall>x\<in>set es. isValid x \<noteq> None"
  shows "\<exists>b. currentValidity es = Some b"
proof (cases "findIndex es (\<lambda>entry. \<not> isEmpty (path entry)) = - 1")
  case True
  then show ?thesis by (simp add: currentValidity_def)
next
  case False
  then obtain i where
    i: "find (\<lambda>i. \<not> isEmpty (path (es ! i))) [0..<length es] = Some i"
    by (auto simp: findIndex_def split: option.splits)
  then have "i < length es"
    by (auto simp: find_Some_iff)
  then have "es ! i \<in> set es" by simp
  with assms obtain b where "isValid (es ! i) = Some b" by auto
  with i show ?thesis
    by (simp add: currentValidity_def findIndex_def)
qed

text \<open>
  C6, as stated, treats a failure of \<open>java -version\<close> as version 0. On the host below the
  callback of \<open>execFile\<close> gets an error, and \<open>stderr\<close> holds the banner of a Java 17: the
  version is 17 and the entry is valid.
\<close>

theorem subprocess_failure_counterexample:
  "err (execFile brokenJavaWorld ''/opt/broken/bin/java'' [''-version'']) =
     Some (JsError ''Command failed: /opt/broken/bin/java -version'') \<and>
   getJavaVersion brokenJavaWorld (Some ''/opt/broken'') =
     ([ExecFile ''/opt/broken/bin/java'' [''-version'']], Inr 17) \<and>
   path (snd (findJavaRuntimeEntries brokenJavaWorld []) ! 0) = Some ''/opt/broken'' \<and>
   isValid (snd (findJavaRuntimeEntries brokenJavaWorld []) ! 0) = Some True \<and>
   hint (snd (findJavaRuntimeEntries brokenJavaWorld []) ! 0) = None"
  by code_simp

text \<open>
  C6, amended. No failure on the validation path reaches the caller. The promise of
  \<open>getJavaVersion\<close> always resolves: the error of the subprocess is not read, and the
  version is the one parsed from what \<open>stderr\<close> holds, so it is 0 when nothing was
  captured, and the entry is then the invalid one of a version too low.
  \<open>findPossibleJdkInstallations\<close>, \<open>findJavaRuntimeEntries\<close> and \<open>validateJavaRuntime\<close>
  always resolve, the second to entries each valid or invalid with a hint, the third to a
  boolean. \<open>suggestOpenJdk\<close> returns the promise of its request: when the request is
  rejected, so is the call.
\<close>

theorem validation_failures_recovered:
  "(\<exists>fx v. getJavaVersion w javaHome = (fx, Inr v)) \<and>
   (p \<noteq> [] \<longrightarrow>
      getJavaVersion w (Some p) =
        ([ExecFile (javaFile w p) [''-version'']],
         Inr (parseMajorVersion (stderr (execFile w (javaFile w p) [''-version'']))))) \<and>
   (path e = Some p \<and> p \<noteq> [] \<and> pathExists w (javacFile w p) \<and>
    stderr (execFile w (javaFile w p) [''-version'']) = []
      \<longrightarrow> validateEntry w e =
            ([PathExists (javacFile w p), ExecFile (javaFile w p) [''-version'']],
             Inr (e\<lparr>isValid := Some False, hint := Some (tooLowHint 0)\<rparr>))) \<and>
   (\<exists>entries h1. findPossibleJdkInstallations w h = (Inr entries, h1)) \<and>
   (\<exists>fx entries h'.
      findJavaRuntimeEntries w h = ((fx, Inr entries), h') \<and>
      (\<forall>a\<in>set entries.
         (isValid (h' ! a) = Some True \<and> hint (h' ! a) = None) \<or>
         (isValid (h' ! a) = Some False \<and> hint (h' ! a) \<noteq> None))) \<and>
   (\<exists>fx b h'. validateJavaRuntime w h = ((fx, Inr (Some b)), h')) \<and>
   (\<exists>uri. suggestOpenJdk w jdkVersion impl = ([HttpGet uri], request_get w uri) \<and>
          (\<forall>x. request_get w uri = Inl x \<longrightarrow> snd (suggestOpenJdk w jdkVersion impl) = Inl x))"
proof (intro conjI impI)
  show "\<exists>fx v. getJavaVersion w javaHome = (fx, Inr v)"
    by (cases javaHome) (simp_all add: getJavaVersion_def Let_def)
next
  assume "p \<noteq> []"
  then show "getJavaVersion w (Some p) =
        ([ExecFile (javaFile w p) [''-version'']],
         Inr (parseMajorVersion (stderr (execFile w (javaFile w p) [''-version'']))))"
    by (simp add: getJavaVersion_def Let_def)
next
  assume a: "path e = Some p \<and> p \<noteq> [] \<and> pathExists w (javacFile w p) \<and>
    stderr (execFile w (javaFile w p) [''-version'']) = []"
  then have "detectedVersion w p = 0"
    by (simp add: parseMajorVersion_def)
  moreover from a have "validateEntry w e =
           ([PathExists (javacFile w p), ExecFile (javaFile w p) [''-version'']],
            Inr (if detectedVersion w p < 11
                 then e\<lparr>isValid := Some False, hint := Some (tooLowHint (detectedVersion w p))\<rparr>
                 else e\<lparr>isValid := Some True\<rparr>))"
    by (intro validateEntry_javac) simp_all
  ultimately show "validateEntry w e =
            ([PathExists (javacFile w p), ExecFile (javaFile w p) [''-version'']],
             Inr (e\<lparr>isValid := Some False, hint := Some (tooLowHint 0)\<rparr>))"
    by simp
next
  show "\<exists>entries h1. findPossibleJdkInstallations w h = (Inr entries, h1)"
    using findPossibleJdkInstallations_alloc[of w h] by blast
next
  let ?c = "candidates w"
  let ?as = "[length h..<length h + length ?c]"
  let ?h' = "h @ map (validated w) ?c"
  have run: "findJavaRuntimeEntries w h =
      ((concat (map (\<lambda>e. fst (validateEntry w e)) ?c), Inr ?as), ?h')"
    by (rule findJavaRuntimeEntries_eq)
  have definite: "(isValid (?h' ! a) = Some True \<and> hint (?h' ! a) = None) \<or>
         (isValid (?h' ! a) = Some False \<and> hint (?h' ! a) \<noteq> None)"
    if "a \<in> set ?as" for a
  proof -
    from that have at: "?h' ! a = validated w (?c ! (a - length h))"
      and c: "?c ! (a - length h) \<in> set ?c"
      by (auto simp: nth_append)
    from candidates_unset[OF c] have "hint (?c ! (a - length h)) = None" by simp
    from validated_definite[OF this, of w] show ?thesis
      unfolding at .
  qed
  with run show "\<exists>fx entries h'.
      findJavaRuntimeEntries w h = ((fx, Inr entries), h') \<and>
      (\<forall>a\<in>set entries.
         (isValid (h' ! a) = Some True \<and> hint (h' ! a) = None) \<or>
         (isValid (h' ! a) = Some False \<and> hint (h' ! a) \<noteq> None))"
    by blast
  have "\<forall>x\<in>set (map ((!) ?h') ?as). isValid x \<noteq> None"
  proof
    fix x assume "x \<in> set (map ((!) ?h') ?as)"
    then obtain a where a: "a \<in> set ?as" and x: "x = ?h' ! a" by auto
    from definite[OF a] show "isValid x \<noteq> None"
      unfolding x by (elim disjE conjE) simp_all
  qed
  from currentValidity_definite[OF this]
  obtain b where "currentValidity (map ((!) ?h') ?as) = Some b" by blast
  with run show "\<exists>fx b h'. validateJavaRuntime w h = ((fx, Inr (Some b)), h')"
    by (simp add: validateJavaRuntime_def)
next
  show "\<exists>uri. suggestOpenJdk w jdkVersion impl = ([HttpGet uri], request_get w uri) \<and>
          (\<forall>x. request_get w uri = Inl x \<longrightarrow> snd (suggestOpenJdk w jdkVersion impl) = Inl x)"
    by (simp add: suggestOpenJdk_def Let_def)
qed

text \<open>
  On the host where no \<open>java\<close> starts and the release service does not answer: the entry
  of \<open>JAVA_HOME\<close> is invalid with the hint for version 0, \<open>validateJavaRuntime\<close> resolves
  to false, and \<open>suggestOpenJdk\<close> is rejected with the error of the request.
\<close>

theorem validation_failures_recovered_witness:
  "validateEntry noJavaWorld
     \<lparr>name = ''JAVA_HOME'', path = Some ''/usr/lib/jvm/jdk-17'', type = EnvironmentVariable,
      actionUri = None, isValid = None, hint = None\<rparr> =
     ([PathExists ''/usr/lib/jvm/jdk-17/bin/javac'',
       ExecFile ''/usr/lib/jvm/jdk-17/bin/java'' [''-version'']],
      Inr \<lparr>name = ''JAVA_HOME'', path = Some ''/usr/lib/jvm/jdk-17'',
           type = EnvironmentVariable, actionUri = None, isValid = Some False,
           hint = Some ''JDK 11+ is required while the path is pointing to version 0''\<rparr>) \<and>
   snd (fst (validateJavaRuntime noJavaWorld [])) = Inr (Some False) \<and>
   snd (suggestOpenJdk noJavaWorld None None) = Inl (JsError ''ETIMEDOUT'')"
proof -
  let ?e = "\<lparr>name = ''JAVA_HOME'', path = Some ''/usr/lib/jvm/jdk-17'',
      type = EnvironmentVariable, actionUri = None, isValid = None, hint = None\<rparr>"
  let ?p = "''/usr/lib/jvm/jdk-17''"
  note pol = validation_failures_recovered[where w = noJavaWorld and h = "[]" and e = ?e
      and p = ?p and javaHome = "Some ?p" and jdkVersion = None and impl = None]
  have hyp: "path ?e = Some ?p \<and> ?p \<noteq> [] \<and> pathExists noJavaWorld (javacFile noJavaWorld ?p) \<and>
    stderr (execFile noJavaWorld (javaFile noJavaWorld ?p) [''-version'']) = []"
    by code_simp
  have f: "javacFile noJavaWorld ?p = ''/usr/lib/jvm/jdk-17/bin/javac''"
    "javaFile noJavaWorld ?p = ''/usr/lib/jvm/jdk-17/bin/java''"
    "tooLowHint 0 = ''JDK 11+ is required while the path is pointing to version 0''"
    by code_simp+
  have a: "validateEntry noJavaWorld ?e =
     ([PathExists ''/usr/lib/jvm/jdk-17/bin/javac'',
       ExecFile ''/usr/lib/jvm/jdk-17/bin/java'' [''-version'']],
      Inr (?e\<lparr>isValid := Some False,
           hint := Some ''JDK 11+ is required while the path is pointing to version 0''\<rparr>))"
    using pol hyp unfolding f by blast
  from pol obtain fx b h' where
    v: "validateJavaRuntime noJavaWorld [] = ((fx, Inr (Some b)), h')"
    by blast
  have "snd (fst (validateJavaRuntime noJavaWorld [])) \<noteq> Inr (Some True)"
    by code_simp
  with v have b: "snd (fst (validateJavaRuntime noJavaWorld [])) = Inr (Some False)"
    by (cases b) simp_all
  from pol obtain uri where
    s: "suggestOpenJdk noJavaWorld None None = ([HttpGet uri], request_get noJavaWorld uri)"
    and rej: "\<forall>x. request_get noJavaWorld uri = Inl x
             \<longrightarrow> snd (suggestOpenJdk noJavaWorld None None) = Inl x"
    by blast
  have "request_get noJavaWorld uri = Inl (JsError ''ETIMEDOUT'')"
    by (simp add: noJavaWorld_def linuxWorld_def)
  with rej have c: "snd (suggestOpenJdk noJavaWorld None None) = Inl (JsError ''ETIMEDOUT'')"
    by blast
  from a b c show ?thesis by simp
qed

subsection \<open>C7: the request of the release advisor\<close>

text \<open>
  C7. Every call of \<open>suggestOpenJdk\<close> performs one operation, the GET request of the
  address \<open>/v2/info/releases/\<close> with the distribution, and the parameters \<open>openjdk_impl\<close>,
  \<open>arch\<close>, \<open>os\<close>, \<open>type=jdk\<close> and \<open>release=latest\<close>, and returns the promise of that
  request as it is. The token of the platform is \<open>windows\<close> for \<open>win32\<close>, \<open>mac\<close> for
  \<open>darwin\<close> and \<open>linux\<close> for every other; the architecture \<open>x86\<close> becomes \<open>x32\<close>, which
  is not the \<open>x64\<close> of a 64-bit one, and every other is kept.
\<close>

theorem suggestOpenJdk_request:
  "\<exists>os arch.
     suggestOpenJdk w jdkVersion impl =
       ([HttpGet
           (''https://api.adoptopenjdk.net/v2/info/releases/''
            @ (case jdkVersion of None \<Rightarrow> ''openjdk11'' | Some v \<Rightarrow> v)
            @ ''?openjdk_impl='' @ (case impl of None \<Rightarrow> ''hotspot'' | Some i \<Rightarrow> i)
            @ ''&arch='' @ arch @ ''&os='' @ os @ ''&type=jdk&release=latest'')],
        request_get w
           (''https://api.adoptopenjdk.net/v2/info/releases/''
            @ (case jdkVersion of None \<Rightarrow> ''openjdk11'' | Some v \<Rightarrow> v)
            @ ''?openjdk_impl='' @ (case impl of None \<Rightarrow> ''hotspot'' | Some i \<Rightarrow> i)
            @ ''&arch='' @ arch @ ''&os='' @ os @ ''&type=jdk&release=latest'')) \<and>
     os \<in> {''windows'', ''mac'', ''linux''} \<and>
     (os = ''windows'') = (platform w = ''win32'') \<and>
     (os = ''mac'') = (platform w = ''darwin'') \<and>
     (os = ''linux'') = (platform w \<noteq> ''win32'' \<and> platform w \<noteq> ''darwin'') \<and>
     (arch = ''x32'') = (architecture w = ''x86'' \<or> architecture w = ''x32'') \<and>
     (architecture w \<noteq> ''x86'' \<longrightarrow> arch = architecture w) \<and>
     (architecture w = ''x64'' \<longrightarrow> arch = ''x64'')"
proof -
  define os where "os =
    (if platform w = ''win32'' then ''windows''
     else if platform w = ''darwin'' then ''mac'' else ''linux'')"
  define arch where "arch = (if architecture w = ''x86'' then ''x32'' else architecture w)"
  define uri where "uri = ''https://api.adoptopenjdk.net/v2/info/releases/''
            @ (case jdkVersion of None \<Rightarrow> ''openjdk11'' | Some v \<Rightarrow> v)
            @ ''?openjdk_impl='' @ (case impl of None \<Rightarrow> ''hotspot'' | Some i \<Rightarrow> i)
            @ ''&arch='' @ arch @ ''&os='' @ os @ ''&type=jdk&release=latest''"
  have call: "suggestOpenJdk w jdkVersion impl = ([HttpGet uri], request_get w uri)"
    unfolding suggestOpenJdk_def Let_def uri_def os_def arch_def by (rule refl)
  have tokens: "os \<in> {''windows'', ''mac'', ''linux''}"
    "(os = ''windows'') = (platform w = ''win32'')"
    "(os = ''mac'') = (platform w = ''darwin'')"
    "(os = ''linux'') = (platform w \<noteq> ''win32'' \<and> platform w \<noteq> ''darwin'')"
    by (simp_all add: os_def)
  have archs: "(arch = ''x32'') = (architecture w = ''x86'' \<or> architecture w = ''x32'')"
    "architecture w \<noteq> ''x86'' \<longrightarrow> arch = architecture w"
    "architecture w = ''x64'' \<longrightarrow> arch = ''x64''"
    by (auto simp: arch_def)
  show ?thesis
  proof (rule exI[of _ os], rule exI[of _ arch], intro conjI)
    show "suggestOpenJdk w jdkVersion impl =
       ([HttpGet
           (''https://api.adoptopenjdk.net/v2/info/releases/''
            @ (case jdkVersion of None \<Rightarrow> ''openjdk11'' | Some v \<Rightarrow> v)
            @ ''?openjdk_impl='' @ (case impl of None \<Rightarrow> ''hotspot'' | Some i \<Rightarrow> i)
            @ ''&arch='' @ arch @ ''&os='' @ os @ ''&type=jdk&release=latest'')],
        request_get w
           (''https://api.adoptopenjdk.net/v2/info/releases/''
            @ (case jdkVersion of None \<Rightarrow> ''openjdk11'' | Some v \<Rightarrow> v)
            @ ''?openjdk_impl='' @ (case impl of None \<Rightarrow> ''hotspot'' | Some i \<Rightarrow> i)
            @ ''&arch='' @ arch @ ''&os='' @ os @ ''&type=jdk&release=latest''))"
      using call unfolding uri_def .
  qed (rule tokens archs)+
qed


text \<open>
  The request of a 32-bit Windows host for the defaults, and the one of a 64-bit macOS
  host for another distribution and implementation.
\<close>

theorem suggestOpenJdk_request_witness:
  "suggestOpenJdk (linuxWorld\<lparr>platform := ''win32'', architecture := ''x86''\<rparr>) None None =
     ([HttpGet ''https://api.adoptopenjdk.net/v2/info/releases/openjdk11?openjdk_impl=hotspot&arch=x32&os=windows&type=jdk&release=latest''],
      Inr (JArray [])) \<and>
   suggestOpenJdk (linuxWorld\<lparr>platform := ''darwin''\<rparr>) (Some ''openjdk8'') (Some ''openj9'') =
     ([HttpGet ''https://api.adoptopenjdk.net/v2/info/releases/openjdk8?openjdk_impl=openj9&arch=x64&os=mac&type=jdk&release=latest''],
      Inr (JArray []))"
proof -
  let ?w1 = "linuxWorld\<lparr>platform := ''win32'', architecture := ''x86''\<rparr>"
  let ?w2 = "linuxWorld\<lparr>platform := ''darwin''\<rparr>"
  have p: "platform ?w1 = ''win32''" "architecture ?w1 = ''x86''"
    "platform ?w2 = ''darwin''" "architecture ?w2 = ''x64''"
    by (simp_all add: linuxWorld_def)
  have g: "request_get ?w1 = (\<lambda>uri. Inr (JArray []))" "request_get ?w2 = (\<lambda>uri. Inr (JArray []))"
    by (simp_all add: linuxWorld_def)
  from suggestOpenJdk_request[of ?w1 None None]
  obtain os1 arch1 where
    c1: "suggestOpenJdk ?w1 None None =
       ([HttpGet (''https://api.adoptopenjdk.net/v2/info/releases/'' @ ''openjdk11''
            @ ''?openjdk_impl='' @ ''hotspot'' @ ''&arch='' @ arch1 @ ''&os='' @ os1
            @ ''&type=jdk&release=latest'')],
        request_get ?w1 (''https://api.adoptopenjdk.net/v2/info/releases/'' @ ''openjdk11''
            @ ''?openjdk_impl='' @ ''hotspot'' @ ''&arch='' @ arch1 @ ''&os='' @ os1
            @ ''&type=jdk&release=latest''))"
    and t1: "(os1 = ''windows'') = (platform ?w1 = ''win32'')"
      "(arch1 = ''x32'') = (architecture ?w1 = ''x86'' \<or> architecture ?w1 = ''x32'')"
    unfolding option.case by (elim exE conjE)
  from suggestOpenJdk_request[of ?w2 "Some ''openjdk8''" "Some ''openj9''"]
  obtain os2 arch2 where
    c2: "suggestOpenJdk ?w2 (Some ''openjdk8'') (Some ''openj9'') =
       ([HttpGet (''https://api.adoptopenjdk.net/v2/info/releases/'' @ ''openjdk8''
            @ ''?openjdk_impl='' @ ''openj9'' @ ''&arch='' @ arch2 @ ''&os='' @ os2
            @ ''&type=jdk&release=latest'')],
        request_get ?w2 (''https://api.adoptopenjdk.net/v2/info/releases/'' @ ''openjdk8''
            @ ''?openjdk_impl='' @ ''openj9'' @ ''&arch='' @ arch2 @ ''&os='' @ os2
            @ ''&type=jdk&release=latest''))"
    and t2: "(os2 = ''mac'') = (platform ?w2 = ''darwin'')"
      "architecture ?w2 = ''x64'' \<longrightarrow> arch2 = ''x64''"
    unfolding option.case by (elim exE conjE)
  from t1 have o1: "os1 = ''windows''" "arch1 = ''x32''"
    unfolding p by simp_all
  from t2 have o2: "os2 = ''mac''" "arch2 = ''x64''"
    unfolding p by simp_all
  show ?thesis
    unfolding c1 c2 o1 o2 g by simp
qed

section \<open>Properties of the panels\<close>

subsection \<open>What each function changes\<close>

lemma view_simps:
  "view JavaRuntime s = javaRuntimeView s"
  "view ExtGuide s = javaExtGuideView s"
  "view GettingStarted s = javaGettingStartedView s"
  by (simp_all add: view_def)

















subsection \<open>The invariant\<close>













subsection \<open>The panel of a feature across a step\<close>








subsection \<open>C9: the state machine of a panel\<close>



subsection \<open>C10: the restoring of a panel\<close>



end
